theory Spec2Isabelle
  imports Complex_Main "HOL-Library.Multiset" "HOL-Library.Sublist" "HOL-Library.Char_ord"
    "HOL-Library.List_Lexorder"
begin

section \<open>Python strings and regular expressions\<close>

text \<open>
  A Python \<open>str\<close> is modelled as a \<open>string\<close>: a list of characters whose code points lie
  below 256 (Latin-1). The character classes below are the ones Python's \<open>str\<close> methods and
  the \<open>re\<close> module use for these code points. Python floats are modelled as reals.
\<close>

definition code :: "char \<Rightarrow> nat" where
  "code c = of_char c"

definition is_digit :: "char \<Rightarrow> bool" where
  \<comment> \<open>\<open>\d\<close>\<close>
  "is_digit c = (48 \<le> code c \<and> code c \<le> 57)"

definition is_upper_az :: "char \<Rightarrow> bool" where
  "is_upper_az c = (65 \<le> code c \<and> code c \<le> 90)"

definition is_lower_az :: "char \<Rightarrow> bool" where
  "is_lower_az c = (97 \<le> code c \<and> code c \<le> 122)"

definition is_alpha_az :: "char \<Rightarrow> bool" where
  \<comment> \<open>\<open>[A-Za-z]\<close>\<close>
  "is_alpha_az c = (is_upper_az c \<or> is_lower_az c)"

definition is_alnum_az :: "char \<Rightarrow> bool" where
  \<comment> \<open>\<open>[A-Za-z0-9]\<close>\<close>
  "is_alnum_az c = (is_alpha_az c \<or> is_digit c)"

definition is_space :: "char \<Rightarrow> bool" where
  \<comment> \<open>\<open>\s\<close> and \<open>str.isspace\<close>: tab to carriage return, the four separators, space,
      next line and no-break space\<close>
  "is_space c = ((9 \<le> code c \<and> code c \<le> 13) \<or> (28 \<le> code c \<and> code c \<le> 32)
                 \<or> code c = 133 \<or> code c = 160)"

definition is_word :: "char \<Rightarrow> bool" where
  \<comment> \<open>\<open>\w\<close>: alphanumeric characters and the underscore\<close>
  "is_word c = (is_alnum_az c \<or> code c = 95
                \<or> code c = 170 \<or> code c = 178 \<or> code c = 179 \<or> code c = 181
                \<or> code c = 185 \<or> code c = 186 \<or> (188 \<le> code c \<and> code c \<le> 190)
                \<or> (192 \<le> code c \<and> code c \<le> 214) \<or> (216 \<le> code c \<and> code c \<le> 246)
                \<or> 248 \<le> code c)"

definition lower_chr :: "char \<Rightarrow> char" where
  "lower_chr c = (if is_upper_az c \<or> (192 \<le> code c \<and> code c \<le> 222 \<and> code c \<noteq> 215)
                  then char_of (code c + 32) else c)"

definition upper_chr :: "char \<Rightarrow> char" where
  "upper_chr c = (if is_lower_az c \<or> (224 \<le> code c \<and> code c \<le> 254 \<and> code c \<noteq> 247)
                  then char_of (code c - 32) else c)"

definition lower :: "string \<Rightarrow> string" where
  \<comment> \<open>\<open>str.lower\<close>\<close>
  "lower s = map lower_chr s"

definition strip :: "string \<Rightarrow> string" where
  \<comment> \<open>\<open>str.strip\<close>\<close>
  "strip s = rev (dropWhile is_space (rev (dropWhile is_space s)))"

fun startswith :: "string \<Rightarrow> string \<Rightarrow> bool" where
  \<comment> \<open>\<open>s.startswith(p)\<close>\<close>
  "startswith s [] = True"
| "startswith [] (p # ps) = False"
| "startswith (c # cs) (p # ps) = (c = p \<and> startswith cs ps)"

definition endswith :: "string \<Rightarrow> string \<Rightarrow> bool" where
  \<comment> \<open>\<open>s.endswith(p)\<close>\<close>
  "endswith s p = startswith (rev s) (rev p)"

fun str_in :: "string \<Rightarrow> string \<Rightarrow> bool" where
  \<comment> \<open>\<open>sub in s\<close>\<close>
  "str_in sub [] = (sub = [])"
| "str_in sub (c # cs) = (startswith (c # cs) sub \<or> str_in sub cs)"

fun split_on :: "char \<Rightarrow> string \<Rightarrow> string list" where
  \<comment> \<open>\<open>s.split(sep)\<close> for a one-character separator\<close>
  "split_on sep [] = [[]]"
| "split_on sep (c # cs) =
     (if c = sep then [] # split_on sep cs
      else (case split_on sep cs of [] \<Rightarrow> [[c]] | w # ws \<Rightarrow> (c # w) # ws))"

fun join :: "string \<Rightarrow> string list \<Rightarrow> string" where
  \<comment> \<open>\<open>sep.join(parts)\<close>\<close>
  "join sep [] = []"
| "join sep [w] = w"
| "join sep (w # v # ws) = w @ sep @ join sep (v # ws)"

definition py_take :: "int \<Rightarrow> 'a list \<Rightarrow> 'a list" where
  \<comment> \<open>the slice \<open>xs[:n]\<close>: a negative \<open>n\<close> counts from the end\<close>
  "py_take n xs = (if 0 \<le> n then take (nat n) xs else take (length xs - nat (- n)) xs)"

subsection \<open>A backtracking matcher for the patterns of the source\<close>

text \<open>
  The patterns of the source use literals, character classes, concatenation, alternation,
  optional groups, greedy repetition of a class, \<open>\b\<close>, \<open>^\<close> and \<open>$\<close>, and no capturing
  group. \<open>ends ic r prev s\<close> tries \<open>r\<close> at the start of \<open>s\<close>, where \<open>prev\<close> is the character
  before \<open>s\<close> in the subject (\<open>None\<close> at its start), and lists every way it can match as a
  pair of the matched text and the rest of the subject, in the order in which Python's
  backtracking matcher tries them: the match Python reports is the first. \<open>ic\<close> is the flag
  \<open>re.IGNORECASE\<close>.
\<close>

datatype re =
    Eps
  | Cls "char \<Rightarrow> bool"
  | Cat re re
  | Alt re re
  | Opt re
  | Rep "char \<Rightarrow> bool" nat "nat option"
  | WordB
  | Bol
  | Eol

definition chr_ok :: "bool \<Rightarrow> (char \<Rightarrow> bool) \<Rightarrow> char \<Rightarrow> bool" where
  \<comment> \<open>with \<open>re.IGNORECASE\<close>, a character matches when one of its case variants does\<close>
  "chr_ok ic P c =
     (if \<not> ic then P c
      else if P c then True
      else if P (lower_chr c) then True
      else P (upper_chr c))"

definition is_word_opt :: "char option \<Rightarrow> bool" where
  "is_word_opt p = (case p of None \<Rightarrow> False | Some c \<Rightarrow> is_word c)"

definition last_chr :: "char option \<Rightarrow> string \<Rightarrow> char option" where
  "last_chr prev m = (if m = [] then prev else Some (last m))"

definition first_chr :: "string \<Rightarrow> char option" where
  "first_chr s = (case s of [] \<Rightarrow> None | c # _ \<Rightarrow> Some c)"

fun rep_ends :: "(char \<Rightarrow> bool) \<Rightarrow> nat \<Rightarrow> nat option \<Rightarrow> string \<Rightarrow> (string \<times> string) list" where
  \<comment> \<open>greedy repetition \<open>{m,mx}\<close> of a class: the longest run first\<close>
  "rep_ends P m mx [] = (if m = 0 then [([], [])] else [])"
| "rep_ends P m mx (c # cs) =
     (if P c \<and> mx \<noteq> Some 0
      then map (\<lambda>e. (c # fst e, snd e)) (rep_ends P (m - 1) (map_option (\<lambda>k. k - 1) mx) cs)
      else [])
     @ (if m = 0 then [([], c # cs)] else [])"

fun ends :: "bool \<Rightarrow> re \<Rightarrow> char option \<Rightarrow> string \<Rightarrow> (string \<times> string) list" where
  "ends ic Eps prev s = [([], s)]"
| "ends ic (Cls P) prev s =
     (case s of [] \<Rightarrow> [] | c # cs \<Rightarrow> if chr_ok ic P c then [([c], cs)] else [])"
| "ends ic (Cat a b) prev s =
     concat (map (\<lambda>m1. map (\<lambda>m2. (fst m1 @ fst m2, snd m2))
                              (ends ic b (last_chr prev (fst m1)) (snd m1)))
                 (ends ic a prev s))"
| "ends ic (Alt a b) prev s = ends ic a prev s @ ends ic b prev s"
| "ends ic (Opt a) prev s = ends ic a prev s @ [([], s)]"
| "ends ic (Rep P m mx) prev s = rep_ends (chr_ok ic P) m mx s"
| "ends ic WordB prev s =
     (if is_word_opt prev \<noteq> is_word_opt (first_chr s) then [([], s)] else [])"
| "ends ic Bol prev s = (if prev = None then [([], s)] else [])"
| "ends ic Eol prev s = (if s = [] \<or> s = [CHR 0x0A] then [([], s)] else [])"

definition chr :: "char \<Rightarrow> re" where
  "chr c = Cls (\<lambda>d. d = c)"

definition one_of :: "string \<Rightarrow> char \<Rightarrow> bool" where
  "one_of cs c = (c \<in> set cs)"

fun lit :: "string \<Rightarrow> re" where
  "lit [] = Eps"
| "lit [c] = chr c"
| "lit (c # d # cs) = Cat (chr c) (lit (d # cs))"

fun seq :: "re list \<Rightarrow> re" where
  "seq [] = Eps"
| "seq [r] = r"
| "seq (r # q # rs) = Cat r (seq (q # rs))"

fun alts :: "re list \<Rightarrow> re" where
  "alts [] = Eps"
| "alts [r] = r"
| "alts (r # q # rs) = Alt r (alts (q # rs))"

definition re_match :: "bool \<Rightarrow> re \<Rightarrow> string \<Rightarrow> bool" where
  \<comment> \<open>\<open>re.match(r, s)\<close> is not \<open>None\<close>\<close>
  "re_match ic r s = (ends ic r None s \<noteq> [])"

fun search_from :: "bool \<Rightarrow> re \<Rightarrow> char option \<Rightarrow> string \<Rightarrow> bool" where
  "search_from ic r prev [] = (ends ic r prev [] \<noteq> [])"
| "search_from ic r prev (c # cs) = (ends ic r prev (c # cs) \<noteq> [] \<or> search_from ic r (Some c) cs)"

definition re_search :: "bool \<Rightarrow> re \<Rightarrow> string \<Rightarrow> bool" where
  \<comment> \<open>\<open>re.search(r, s)\<close> is not \<open>None\<close>\<close>
  "re_search ic r s = search_from ic r None s"

text \<open>
  \<open>re.findall\<close> and \<open>re.sub\<close> scan the subject from left to right; \<open>skip\<close> counts the
  characters still inside the last match. No pattern of the source matches the empty string.
\<close>

fun findall_from :: "bool \<Rightarrow> re \<Rightarrow> nat \<Rightarrow> char option \<Rightarrow> string \<Rightarrow> string list" where
  "findall_from ic r skip prev [] =
     (case ends ic r prev [] of [] \<Rightarrow> [] | m # _ \<Rightarrow> if skip = 0 then [fst m] else [])"
| "findall_from ic r skip prev (c # cs) =
     (if 0 < skip then findall_from ic r (skip - 1) (Some c) cs
      else (case ends ic r prev (c # cs) of
              [] \<Rightarrow> findall_from ic r 0 (Some c) cs
            | m # _ \<Rightarrow> fst m # findall_from ic r (length (fst m) - 1) (Some c) cs))"

definition findall :: "bool \<Rightarrow> re \<Rightarrow> string \<Rightarrow> string list" where
  \<comment> \<open>\<open>re.findall(r, s)\<close> for a pattern with no capturing group\<close>
  "findall ic r s = findall_from ic r 0 None s"

fun sub_from :: "re \<Rightarrow> string \<Rightarrow> nat \<Rightarrow> char option \<Rightarrow> string \<Rightarrow> string" where
  "sub_from r repl skip prev [] =
     (case ends False r prev [] of [] \<Rightarrow> [] | m # _ \<Rightarrow> if skip = 0 then repl else [])"
| "sub_from r repl skip prev (c # cs) =
     (if 0 < skip then sub_from r repl (skip - 1) (Some c) cs
      else (case ends False r prev (c # cs) of
              [] \<Rightarrow> c # sub_from r repl 0 (Some c) cs
            | m # _ \<Rightarrow>
                if fst m = [] then repl @ c # sub_from r repl 0 (Some c) cs
                else repl @ sub_from r repl (length (fst m) - 1) (Some c) cs))"

definition re_sub :: "re \<Rightarrow> string \<Rightarrow> string \<Rightarrow> string" where
  \<comment> \<open>\<open>re.sub(r, repl, s)\<close>\<close>
  "re_sub r repl s = sub_from r repl 0 None s"

section \<open>The result parser (\<open>crawler/parser.py\<close>)\<close>

type_synonym datetime = int

datatype pyval =
    PStr string
  | PInt int
  | PFloat real
  | PBool bool
  | PStrList "string list"
  | PTime datetime
  | PDict "(string \<times> pyval) list"

text \<open>A \<open>dict\<close> with string keys keeps its insertion order: an association list.\<close>

type_synonym pydict = "(string \<times> pyval) list"

definition dict_get :: "pydict \<Rightarrow> string \<Rightarrow> pyval \<Rightarrow> pyval" where
  \<comment> \<open>\<open>d.get(k, default)\<close>\<close>
  "dict_get d k dflt = (case map_of d k of None \<Rightarrow> dflt | Some v \<Rightarrow> v)"

datatype py_error = TypeError string | ValueError string | OverflowError

fun collect :: "(py_error + 'a) list \<Rightarrow> py_error + 'a list" where
  \<comment> \<open>the values of a loop whose body may raise: the first exception ends the loop\<close>
  "collect [] = Inr []"
| "collect (x # xs) =
     (case x of
        Inl e \<Rightarrow> Inl e
      | Inr v \<Rightarrow> (case collect xs of Inl e \<Rightarrow> Inl e | Inr vs \<Rightarrow> Inr (v # vs)))"

text \<open>
  An \<open>int\<close> in float arithmetic is converted to a float first. The conversion rounds to the
  nearest float and raises \<open>OverflowError\<close> when the result is beyond the largest one, that
  is from \<open>2^1024 - 2^970\<close> on. The value of the float is taken to be the integer itself.
\<close>

definition float_limit :: int where
  "float_limit = 2 ^ 1024 - 2 ^ 970"

definition int_to_float :: "int \<Rightarrow> py_error + real" where
  "int_to_float n = (if \<bar>n\<bar> < float_limit then Inr (real_of_int n) else Inl OverflowError)"

record SearchResult =
  title :: string
  url :: string
  snippet :: string
  rank :: int
  domain :: string
  crawl_timestamp :: datetime
  response_time :: real
  result_metadata :: pydict

record ParsedResult =
  title :: string
  url :: string
  snippet :: string
  rank :: int
  domain :: string
  normalized_title :: string
  normalized_snippet :: string
  domain_info :: pydict
  "keywords" :: "string list"
  language :: string
  crawl_timestamp :: datetime
  response_time :: real
  source_keyword :: string
  relevance_score :: real
  quality_score :: real
  metadata :: pydict

definition stop_words :: "string list" where
  "stop_words =
    [''the'', ''a'', ''an'', ''and'', ''or'', ''but'', ''in'', ''on'', ''at'', ''to'', ''for'',
     ''of'', ''with'', ''by'', ''from'', ''up'', ''about'', ''into'', ''through'', ''during'',
     ''before'', ''after'', ''above'', ''below'', ''between'', ''among'', ''is'', ''are'',
     ''was'', ''were'', ''be'', ''been'', ''being'', ''have'', ''has'', ''had'', ''do'', ''does'',
     ''did'', ''will'', ''would'', ''could'', ''should'', ''may'', ''might'', ''must'', ''can'']"

definition quality_indicators :: "(string \<times> string list) list" where
  "quality_indicators =
    [(''high'', [''.edu'', ''.gov'', ''.org'']),
     (''medium'', [''.com'', ''.net'']),
     (''low'', [''.tk'', ''.ml'', ''.ga'', ''.cf''])]"

definition safe_chr :: "char \<Rightarrow> bool" where
  \<comment> \<open>the class \<open>[\w\s\-.,!?()"]\<close>\<close>
  "safe_chr c = (is_word c \<or> is_space c \<or> one_of (''-.,!?()'' @ [CHR 0x22]) c)"

definition normalize_text :: "string \<Rightarrow> string" where
  "normalize_text t =
     (if t = [] then []
      else let t1 = re_sub (Rep is_space 1 None) '' '' (strip t);
               t2 = re_sub (Cls (\<lambda>c. \<not> safe_chr c)) [] t1;
               t3 = re_sub (Rep (\<lambda>c. c = CHR ''.'') 2 None) ''...'' t2;
               t4 = re_sub (Rep (\<lambda>c. c = CHR ''!'') 2 None) ''!'' t3;
               t5 = re_sub (Rep (\<lambda>c. c = CHR ''?'') 2 None) ''?'' t4
           in strip t5)"

fun count_word :: "string \<Rightarrow> (string \<times> nat) list \<Rightarrow> (string \<times> nat) list" where
  \<comment> \<open>\<open>word_freq[word] = word_freq.get(word, 0) + 1\<close>: a new key goes last\<close>
  "count_word w [] = [(w, 1)]"
| "count_word w ((v, n) # kvs) = (if v = w then (v, n + 1) # kvs else (v, n) # count_word w kvs)"

definition extract_keywords :: "string \<Rightarrow> int \<Rightarrow> string list" where
  "extract_keywords t max_keywords =
     (if t = [] then []
      else let words = findall False (seq [WordB, Rep is_word 1 None, WordB]) (lower t);
               kws = filter (\<lambda>w. w \<notin> set stop_words \<and> 2 < length w) words;
               word_freq = fold count_word kws [];
               sorted_keywords = sort_key (\<lambda>kv. - int (snd kv)) word_freq
           in map fst (py_take max_keywords sorted_keywords))"

definition analyze_domain :: "string option \<Rightarrow> pydict" where
  "analyze_domain dmn =
     (case dmn of
        None \<Rightarrow> []
      | Some d \<Rightarrow>
          if d = [] then []
          else let domain_lower = lower d;
                   quality = (case find (\<lambda>lv. list_ex (endswith domain_lower) (snd lv))
                                         quality_indicators of
                                None \<Rightarrow> ''medium'' | Some lv \<Rightarrow> fst lv);
                   parts = split_on CHR ''.'' d;
                   tld = (if CHR ''.'' \<in> set d then last parts else []);
                   is_subdomain = (2 < length parts);
                   main_domain = (if CHR ''.'' \<in> set d
                                  then join ''.'' (drop (length parts - 2) parts) else d)
               in [(''quality'', PStr quality),
                   (''tld'', PStr tld),
                   (''is_subdomain'', PBool is_subdomain),
                   (''main_domain'', PStr main_domain),
                   (''length'', PInt (int (length d))),
                   (''has_numbers'', PBool (re_search False (Cls is_digit) d)),
                   (''has_hyphens'', PBool (CHR ''-'' \<in> set d))])"

definition detect_language :: "string \<Rightarrow> string" where
  "detect_language t =
     (if t = [] then ''unknown''
      else let english_indicators =
                 [''the'', ''and'', ''or'', ''is'', ''are'', ''was'', ''were'', ''a'', ''an''];
               text_lower = lower t;
               english_count = length (filter (\<lambda>w. str_in w text_lower) english_indicators)
           in if 2 \<le> english_count then ''en'' else ''unknown'')"

definition calculate_relevance_score :: "SearchResult \<Rightarrow> py_error + real" where
  "calculate_relevance_score r =
     (case int_to_float (SearchResult.rank r - 1) of
        Inl e \<Rightarrow> Inl e
      | Inr rank_minus_1 \<Rightarrow>
          (let rank_score = max 0 (1 - rank_minus_1 * 0.1);
              title_len = length (SearchResult.title r);
              c1 = 0.5 + (if 30 \<le> title_len \<and> title_len \<le> 100 then 0.2 else 0);
              c2 = c1 + (if SearchResult.snippet r \<noteq> [] \<and> 50 < length (SearchResult.snippet r)
                         then 0.2 else 0);
              content_score = c2 + (if \<not> list_ex (\<lambda>ind. str_in ind (lower (SearchResult.domain r)))
                                            [''spam'', ''ads'', ''click'', ''buy'']
                                    then 0.1 else 0)
           in Inr (min 1 ((rank_score + content_score) / 2))))"

definition calculate_quality_score :: "SearchResult \<Rightarrow> pydict \<Rightarrow> real" where
  "calculate_quality_score r dinfo =
     (let domain_quality = dict_get dinfo ''quality'' (PStr ''medium'');
          s1 = 0.5 + (if domain_quality = PStr ''high'' then 0.3
                      else if domain_quality = PStr ''medium'' then 0.1 else 0);
          s2 = s1 + (if SearchResult.response_time r < 2 then 0.1
                     else if 5 < SearchResult.response_time r then - 0.1 else 0);
          s3 = s2 + (if SearchResult.title r \<noteq> [] \<and> 10 < length (SearchResult.title r)
                     then 0.1 else 0);
          score = s3 + (if SearchResult.snippet r \<noteq> [] \<and> 30 < length (SearchResult.snippet r)
                        then 0.1 else 0)
      in min 1 (max 0 score))"

subsection \<open>Constructing a \<open>ParsedResult\<close>\<close>

text \<open>
  The constructor a \<open>dataclass\<close> generates takes one parameter per declared field. A call
  with keyword arguments raises \<open>TypeError\<close> when a keyword names no parameter, or when a
  parameter gets no value.
\<close>

definition parsed_result_fields :: "string list" where
  "parsed_result_fields =
    [''title'', ''url'', ''snippet'', ''rank'', ''domain'',
     ''normalized_title'', ''normalized_snippet'', ''domain_info'', ''keywords'', ''language'',
     ''crawl_timestamp'', ''response_time'', ''source_keyword'',
     ''relevance_score'', ''quality_score'',
     ''metadata'']"

definition bind_kwargs :: "string list \<Rightarrow> (string \<times> pyval) list \<Rightarrow> py_error + (string \<rightharpoonup> pyval)" where
  "bind_kwargs params kwargs =
     (case find (\<lambda>kv. fst kv \<notin> set params) kwargs of
        Some kv \<Rightarrow> Inl (TypeError (''unexpected keyword argument '' @ fst kv))
      | None \<Rightarrow>
          (case find (\<lambda>f. f \<notin> set (map fst kwargs)) params of
             Some f \<Rightarrow> Inl (TypeError (''missing required argument '' @ f))
           | None \<Rightarrow> Inr (map_of kwargs)))"

definition get_str :: "(string \<rightharpoonup> pyval) \<Rightarrow> string \<Rightarrow> string" where
  "get_str m k = (case m k of Some (PStr s) \<Rightarrow> s | _ \<Rightarrow> [])"

definition get_int :: "(string \<rightharpoonup> pyval) \<Rightarrow> string \<Rightarrow> int" where
  "get_int m k = (case m k of Some (PInt i) \<Rightarrow> i | Some (PTime i) \<Rightarrow> i | _ \<Rightarrow> 0)"

definition get_float :: "(string \<rightharpoonup> pyval) \<Rightarrow> string \<Rightarrow> real" where
  "get_float m k = (case m k of Some (PFloat x) \<Rightarrow> x | _ \<Rightarrow> 0)"

definition get_strs :: "(string \<rightharpoonup> pyval) \<Rightarrow> string \<Rightarrow> string list" where
  "get_strs m k = (case m k of Some (PStrList xs) \<Rightarrow> xs | _ \<Rightarrow> [])"

definition get_dict :: "(string \<rightharpoonup> pyval) \<Rightarrow> string \<Rightarrow> pydict" where
  "get_dict m k = (case m k of Some (PDict d) \<Rightarrow> d | _ \<Rightarrow> [])"

definition ParsedResult_init :: "(string \<times> pyval) list \<Rightarrow> py_error + ParsedResult" where
  "ParsedResult_init kwargs =
     (case bind_kwargs parsed_result_fields kwargs of
        Inl e \<Rightarrow> Inl e
      | Inr m \<Rightarrow>
          Inr \<lparr>ParsedResult.title = get_str m ''title'',
               ParsedResult.url = get_str m ''url'',
               ParsedResult.snippet = get_str m ''snippet'',
               ParsedResult.rank = get_int m ''rank'',
               ParsedResult.domain = get_str m ''domain'',
               normalized_title = get_str m ''normalized_title'',
               normalized_snippet = get_str m ''normalized_snippet'',
               domain_info = get_dict m ''domain_info'',
               keywords = get_strs m ''keywords'',
               language = get_str m ''language'',
               ParsedResult.crawl_timestamp = get_int m ''crawl_timestamp'',
               ParsedResult.response_time = get_float m ''response_time'',
               source_keyword = get_str m ''source_keyword'',
               relevance_score = get_float m ''relevance_score'',
               quality_score = get_float m ''quality_score'',
               metadata = get_dict m ''metadata''\<rparr>)"

text \<open>
  \<open>parse_search_result\<close> computes the enriched values and calls the constructor inside a
  \<open>try\<close> whose handler logs the exception and returns \<open>None\<close>: so does an exception of the
  relevance score, and so does one of the constructor.
\<close>

definition parse_search_result :: "SearchResult \<Rightarrow> ParsedResult option" where
  "parse_search_result r =
     (let normalized_title = normalize_text (SearchResult.title r);
          normalized_snippet = normalize_text (SearchResult.snippet r);
          kws = extract_keywords (SearchResult.title r @ '' '' @ SearchResult.snippet r) 10;
          dinfo = analyze_domain (Some (SearchResult.domain r));
          lang = detect_language (SearchResult.title r @ '' '' @ SearchResult.snippet r)
      in case calculate_relevance_score r of
           Inl e \<Rightarrow> None
         | Inr relevance \<Rightarrow>
             (let quality = calculate_quality_score r dinfo
              in case ParsedResult_init
                       [(''title'', PStr (SearchResult.title r)),
                        (''url'', PStr (SearchResult.url r)),
                        (''snippet'', PStr (SearchResult.snippet r)),
                        (''rank'', PInt (SearchResult.rank r)),
                        (''domain'', PStr (SearchResult.domain r)),
                        (''normalized_title'', PStr normalized_title),
                        (''normalized_snippet'', PStr normalized_snippet),
                        (''domain_info'', PDict dinfo),
                        (''keywords'', PStrList kws),
                        (''language'', PStr lang),
                        (''crawl_timestamp'', PTime (SearchResult.crawl_timestamp r)),
                        (''response_time'', PFloat (SearchResult.response_time r)),
                        (''source_keyword'', dict_get (result_metadata r) ''keyword'' (PStr [])),
                        (''relevance_score'', PFloat relevance),
                        (''quality_score'', PFloat quality),
                        (''result_metadata'', PDict (result_metadata r))] of
                  Inl e \<Rightarrow> None
                | Inr p \<Rightarrow> Some p))"

subsection \<open>Deduplication and sorting\<close>

definition title_key :: "ParsedResult \<Rightarrow> string" where
  "title_key r = lower (normalize_text (ParsedResult.title r))"

fun dedup_loop :: "string set \<Rightarrow> string set \<Rightarrow> ParsedResult list \<Rightarrow> ParsedResult list" where
  "dedup_loop seen_urls seen_titles [] = []"
| "dedup_loop seen_urls seen_titles (r # rs) =
     (if ParsedResult.url r \<in> seen_urls then dedup_loop seen_urls seen_titles rs
      else if title_key r \<in> seen_titles then dedup_loop seen_urls seen_titles rs
      else r # dedup_loop (insert (ParsedResult.url r) seen_urls)
                          (insert (title_key r) seen_titles) rs)"

definition deduplicate_results :: "ParsedResult list \<Rightarrow> ParsedResult list" where
  "deduplicate_results results = dedup_loop {} {} results"

text \<open>
  \<open>sorted\<close> is stable, also with \<open>reverse=True\<close>: sorting by the negated key. A string key is
  compared by code points, lexicographically.
\<close>

definition sort_results :: "ParsedResult list \<Rightarrow> string \<Rightarrow> ParsedResult list" where
  "sort_results results sort_by =
     (if sort_by = ''relevance'' then sort_key (\<lambda>x. - relevance_score x) results
      else if sort_by = ''quality'' then sort_key (\<lambda>x. - quality_score x) results
      else if sort_by = ''rank'' then sort_key ParsedResult.rank results
      else if sort_by = ''domain'' then sort_key ParsedResult.domain results
      else results)"

section \<open>The contact extractor (\<open>enrichment/contact_extractor.py\<close>)\<close>

record PageContent =
  url :: string
  title :: string
  content :: string
  html :: string
  status_code :: int
  response_time :: real
  headers :: "(string \<times> string) list"
  fetch_timestamp :: datetime
  error :: "string option"

text \<open>
  The lists of a \<open>ContactInfo\<close> that the source builds with \<open>list(set(...))\<close> have no
  defined order: they are modelled as sets, and \<open>len\<close> as \<open>card\<close>.
\<close>

record ContactInfo =
  emails :: "string set"
  contact_pages :: "string set"
  social_links :: "string \<rightharpoonup> string"
  phone_numbers :: "string set"
  addresses :: "string set"
  confidence_score :: real
  extraction_method :: string
  source_urls :: "string list"

text \<open>
  The parsed markup is used through its anchors only: \<open>find_all('a', ...)\<close> returns them in
  document order. An anchor has an optional \<open>href\<close> attribute and its text, as
  \<open>get_text(strip=True)\<close> returns it. The HTML parser and \<open>urljoin\<close> are library functions:
  the operations below take them as the parameters \<open>bs\<close> and \<open>urljoin\<close>. Both can raise:
  the parser rejects some markup, and \<open>urljoin\<close> raises \<open>ValueError\<close> on some arguments (an
  unclosed bracket in the host, for one). So \<open>bs\<close> returns an error or the anchors, and
  \<open>urljoin\<close> an error or a URL.
\<close>

record anchor =
  href :: "string option"
  anchor_text :: string

definition email_local :: "char \<Rightarrow> bool" where
  \<comment> \<open>\<open>[A-Za-z0-9._%+-]\<close>\<close>
  "email_local c = (is_alnum_az c \<or> one_of ''._%+-'' c)"

definition email_host :: "char \<Rightarrow> bool" where
  \<comment> \<open>\<open>[A-Za-z0-9.-]\<close>\<close>
  "email_host c = (is_alnum_az c \<or> one_of ''.-'' c)"

definition email_tld :: "char \<Rightarrow> bool" where
  \<comment> \<open>\<open>[A-Z|a-z]\<close>\<close>
  "email_tld c = (is_alpha_az c \<or> c = CHR ''|'')"

definition email_pattern_plain :: re where
  \<comment> \<open>\<open>\b[A-Za-z0-9._%+-]+@[A-Za-z0-9.-]+\.[A-Z|a-z]{2,}\b\<close>\<close>
  "email_pattern_plain =
     seq [WordB, Rep email_local 1 None, chr CHR ''@'', Rep email_host 1 None, chr CHR ''.'',
          Rep email_tld 2 None, WordB]"

definition email_pattern_at_dot :: re where
  \<comment> \<open>\<open>\b[A-Za-z0-9._%+-]+\s*\[at\]\s*[A-Za-z0-9.-]+\s*\[dot\]\s*[A-Z|a-z]{2,}\b\<close>\<close>
  "email_pattern_at_dot =
     seq [WordB, Rep email_local 1 None, Rep is_space 0 None, lit ''[at]'', Rep is_space 0 None,
          Rep email_host 1 None, Rep is_space 0 None, lit ''[dot]'', Rep is_space 0 None,
          Rep email_tld 2 None, WordB]"

definition email_pattern_spaced :: re where
  \<comment> \<open>\<open>\b[A-Za-z0-9._%+-]+\s*@\s*[A-Za-z0-9.-]+\s*\.\s*[A-Z|a-z]{2,}\b\<close>\<close>
  "email_pattern_spaced =
     seq [WordB, Rep email_local 1 None, Rep is_space 0 None, chr CHR ''@'', Rep is_space 0 None,
          Rep email_host 1 None, Rep is_space 0 None, chr CHR ''.'', Rep is_space 0 None,
          Rep email_tld 2 None, WordB]"

definition email_patterns :: "re list" where
  "email_patterns = [email_pattern_plain, email_pattern_at_dot, email_pattern_spaced]"

definition phone_sep :: "char \<Rightarrow> bool" where
  \<comment> \<open>\<open>[-.\s]\<close>\<close>
  "phone_sep c = (one_of ''-.'' c \<or> is_space c)"

definition phone_pattern_us :: re where
  \<comment> \<open>\<open>\+?1?[-.\s]?\(?[0-9]{3}\)?[-.\s]?[0-9]{3}[-.\s]?[0-9]{4}\<close>\<close>
  "phone_pattern_us =
     seq [Opt (chr CHR ''+''), Opt (chr CHR ''1''), Opt (Cls phone_sep), Opt (chr CHR ''(''),
          Rep is_digit 3 (Some 3), Opt (chr CHR '')''), Opt (Cls phone_sep),
          Rep is_digit 3 (Some 3), Opt (Cls phone_sep), Rep is_digit 4 (Some 4)]"

definition phone_pattern_intl :: re where
  \<comment> \<open>\<open>\+?[0-9]{1,4}[-.\s]?[0-9]{1,4}[-.\s]?[0-9]{1,4}[-.\s]?[0-9]{1,9}\<close>\<close>
  "phone_pattern_intl =
     seq [Opt (chr CHR ''+''), Rep is_digit 1 (Some 4), Opt (Cls phone_sep),
          Rep is_digit 1 (Some 4), Opt (Cls phone_sep), Rep is_digit 1 (Some 4),
          Opt (Cls phone_sep), Rep is_digit 1 (Some 9)]"

definition phone_patterns :: "re list" where
  "phone_patterns = [phone_pattern_us, phone_pattern_intl]"

definition contact_page_paths :: "string list" where
  "contact_page_paths =
    [''/contact'', ''/contact-us'', ''/contact_us'', ''/contactus'',
     ''/about'', ''/about-us'', ''/about_us'', ''/aboutus'',
     ''/team'', ''/staff'', ''/people'',
     ''/support'', ''/help'', ''/feedback'',
     ''/info'', ''/information'']"

definition http_www :: "re" where
  \<comment> \<open>\<open>https?://(?:www\.)?\<close>\<close>
  "http_www = seq [lit ''http'', Opt (chr CHR ''s''), lit ''://'', Opt (lit ''www.'')]"

definition social_patterns :: "(string \<times> re) list" where
  "social_patterns =
    [(''linkedin'', seq [http_www, lit ''linkedin.com/'', Alt (lit ''in'') (lit ''company''),
                         chr CHR ''/'', Rep (\<lambda>c. is_alnum_az c \<or> c = CHR ''-'') 1 None]),
     (''twitter'', seq [http_www, lit ''twitter.com/'',
                        Rep (\<lambda>c. is_alnum_az c \<or> c = CHR ''_'') 1 None]),
     (''facebook'', seq [http_www, lit ''facebook.com/'',
                         Rep (\<lambda>c. is_alnum_az c \<or> c = CHR ''.'') 1 None]),
     (''instagram'', seq [http_www, lit ''instagram.com/'',
                          Rep (\<lambda>c. is_alnum_az c \<or> one_of ''_.'' c) 1 None]),
     (''youtube'', seq [http_www, lit ''youtube.com/'',
                        alts [lit ''channel/'', lit ''user/'', lit ''c/''],
                        Rep (\<lambda>c. is_alnum_az c \<or> one_of ''_-'' c) 1 None]),
     (''github'', seq [http_www, lit ''github.com/'',
                       Rep (\<lambda>c. is_alnum_az c \<or> one_of ''_-'' c) 1 None])]"

definition spam_indicators :: "string list" where
  "spam_indicators =
    [''noreply'', ''no-reply'', ''donotreply'', ''do-not-reply'',
     ''mailer-daemon'', ''postmaster'', ''webmaster'',
     ''example.com'', ''test.com'', ''localhost'',
     ''sentry.io'', ''bugsnag.com'']"

definition is_valid_email :: "string \<Rightarrow> bool" where
  "is_valid_email email =
     (if email = [] \<or> CHR ''@'' \<notin> set email then False
      else if list_ex (\<lambda>ind. str_in ind (lower email)) spam_indicators then False
      else if \<not> re_match False
                  (seq [Bol, Rep email_local 1 None, chr CHR ''@'', Rep email_host 1 None,
                        chr CHR ''.'', Rep is_alpha_az 2 None, Eol]) email
           then False
      else True)"

definition mailto_links :: "anchor list \<Rightarrow> anchor list" where
  \<comment> \<open>\<open>soup.find_all('a', href=re.compile(r'^mailto:', re.I))\<close>\<close>
  "mailto_links soup =
     filter (\<lambda>a. case href a of None \<Rightarrow> False
                  | Some h \<Rightarrow> re_search True (seq [Bol, lit ''mailto:'']) h) soup"

definition mailto_emails :: "anchor list \<Rightarrow> string set" where
  \<comment> \<open>the loop over the \<open>mailto:\<close> links\<close>
  "mailto_emails soup =
     (let hrefs = filter (\<lambda>h. startswith h ''mailto:'')
                         (map (\<lambda>a. case href a of None \<Rightarrow> [] | Some h \<Rightarrow> h) (mailto_links soup));
          cands = map (\<lambda>h. hd (split_on CHR ''?'' (drop 7 h))) hrefs
      in set (filter (\<lambda>e. CHR ''@'' \<in> set e) cands))"

definition extract_emails :: "string \<Rightarrow> anchor list \<Rightarrow> string set" where
  "extract_emails txt soup =
     (let found = set (concat (map (\<lambda>p. findall True p txt) email_patterns)) \<union> mailto_emails soup
      in {e \<in> (\<lambda>e. lower (strip e)) ` found. is_valid_email e})"

definition contact_keywords :: "string list" where
  "contact_keywords =
    [''contact'', ''about'', ''team'', ''support'', ''help'',
     ''info'', ''reach'', ''touch'', ''connect'']"

definition contact_hrefs :: "anchor list \<Rightarrow> string list" where
  \<comment> \<open>the \<open>href\<close>s of the anchors whose \<open>href\<close> or text contains a contact keyword\<close>
  "contact_hrefs soup =
     concat (map (\<lambda>a. case href a of
                         None \<Rightarrow> []
                       | Some h \<Rightarrow>
                           if list_ex (\<lambda>k. str_in k (lower h) \<or> str_in k (lower (anchor_text a)))
                                      contact_keywords
                           then [h] else [])
                 soup)"

definition extract_contact_pages ::
  "(string \<Rightarrow> string \<Rightarrow> py_error + string) \<Rightarrow> anchor list \<Rightarrow> string \<Rightarrow> py_error + string set" where
  "extract_contact_pages urljoin soup base_url =
     (case collect (map (urljoin base_url) (contact_hrefs soup)) of
        Inl e \<Rightarrow> Inl e
      | Inr full_urls \<Rightarrow> Inr (set full_urls))"

definition platform_of :: "string \<Rightarrow> string option" where
  \<comment> \<open>the inner loop: the first platform whose pattern matches the \<open>href\<close>\<close>
  "platform_of h = map_option fst (find (\<lambda>pp. re_match True (snd pp) h) social_patterns)"

fun social_loop :: "(string \<rightharpoonup> string) \<Rightarrow> string list \<Rightarrow> (string \<rightharpoonup> string)" where
  "social_loop links [] = links"
| "social_loop links (h # hs) =
     (case platform_of h of
        None \<Rightarrow> social_loop links hs
      | Some platform \<Rightarrow> social_loop (links(platform \<mapsto> h)) hs)"

definition hrefs_of :: "anchor list \<Rightarrow> string list" where
  \<comment> \<open>the \<open>href\<close>s of \<open>soup.find_all('a', href=True)\<close>\<close>
  "hrefs_of soup = concat (map (\<lambda>a. case href a of None \<Rightarrow> [] | Some h \<Rightarrow> [h]) soup)"

definition extract_social_links :: "anchor list \<Rightarrow> (string \<rightharpoonup> string)" where
  "extract_social_links soup = social_loop Map.empty (hrefs_of soup)"

definition phone_matches :: "string \<Rightarrow> string set" where
  \<comment> \<open>the set \<open>phone_numbers\<close> after the loop over the patterns\<close>
  "phone_matches txt = set (concat (map (\<lambda>p. findall False p txt) phone_patterns))"

definition clean_phone :: "string \<Rightarrow> string" where
  \<comment> \<open>\<open>re.sub(r'[^\d+]', '', phone)\<close>\<close>
  "clean_phone phone = re_sub (Cls (\<lambda>c. \<not> (is_digit c \<or> c = CHR ''+''))) [] phone"

definition extract_phone_numbers :: "string \<Rightarrow> string set" where
  "extract_phone_numbers txt = strip ` {p \<in> phone_matches txt. 10 \<le> length (clean_phone p)}"

definition street_suffixes :: "string list" where
  "street_suffixes =
    [''Street'', ''St'', ''Avenue'', ''Ave'', ''Road'', ''Rd'', ''Boulevard'', ''Blvd'',
     ''Drive'', ''Dr'', ''Lane'', ''Ln'', ''Way'', ''Place'', ''Pl'']"

definition address_pattern :: "re" where
  "address_pattern =
     seq [Rep is_digit 1 None, Rep is_space 1 None,
          Rep (\<lambda>c. is_alnum_az c \<or> is_space c \<or> one_of '',.-'' c) 1 None,
          alts (map lit street_suffixes),
          Rep is_space 0 None, Opt (chr CHR '',''), Rep is_space 0 None,
          Rep (\<lambda>c. is_alpha_az c \<or> is_space c) 1 None, Opt (chr CHR '',''),
          Rep is_space 0 None, Rep is_upper_az 2 (Some 2), Rep is_space 1 None,
          Rep is_digit 5 (Some 5), Opt (Cat (chr CHR ''-'') (Rep is_digit 4 (Some 4)))]"

definition extract_addresses :: "string \<Rightarrow> string set" where
  "extract_addresses txt = set (findall True address_pattern txt)"

definition validate_emails :: "string set \<Rightarrow> string set" where
  "validate_emails es = {e \<in> es. is_valid_email e}"

definition calculate_confidence_score ::
  "string set \<Rightarrow> string set \<Rightarrow> (string \<rightharpoonup> string) \<Rightarrow> string set \<Rightarrow> PageContent option \<Rightarrow> real" where
  "calculate_confidence_score es cps sls pns page_content =
     (let s1 = (if es \<noteq> {} then 0.4 * min 1 (real (card es) / 3) else 0);
          s2 = s1 + (if cps \<noteq> {} then 0.2 * min 1 (real (card cps) / 2) else 0);
          s3 = s2 + (if sls \<noteq> Map.empty then 0.2 * min 1 (real (card (dom sls)) / 3) else 0);
          s4 = s3 + (if pns \<noteq> {} then 0.1 * min 1 (real (card pns) / 2) else 0);
          score = (case page_content of
                     None \<Rightarrow> s4
                   | Some pg \<Rightarrow>
                       s4 + (if list_ex (\<lambda>k. str_in k (lower (PageContent.url pg)))
                                        [''contact'', ''about'', ''team'']
                             then 0.1 else 0)
                          + (if 500 < length (content pg) then 0.05 else 0))
      in min 1 score)"

definition empty_page :: ContactInfo where
  \<comment> \<open>\<open>ContactInfo([], [], {}, [], [], 0.0, 'empty_page', [])\<close>\<close>
  "empty_page = \<lparr>emails = {}, contact_pages = {}, social_links = Map.empty, phone_numbers = {},
                  addresses = {}, confidence_score = 0, extraction_method = ''empty_page'',
                  source_urls = []\<rparr>"

definition extract_contacts_from_page ::
  "(string \<Rightarrow> py_error + anchor list) \<Rightarrow> (string \<Rightarrow> string \<Rightarrow> py_error + string) \<Rightarrow>
   PageContent option \<Rightarrow> py_error + ContactInfo" where
  "extract_contacts_from_page bs urljoin page_content =
     (case page_content of
        None \<Rightarrow> Inr empty_page
      | Some pg \<Rightarrow>
          if html pg = [] then Inr empty_page
          else (case bs (html pg) of
                  Inl e \<Rightarrow> Inl e
                | Inr soup \<Rightarrow>
                    (let es = extract_emails (content pg) soup
                     in (case extract_contact_pages urljoin soup (PageContent.url pg) of
                           Inl e \<Rightarrow> Inl e
                         | Inr cps \<Rightarrow>
                             (let sls = extract_social_links soup;
                                  pns = extract_phone_numbers (content pg);
                                  ads = extract_addresses (content pg);
                                  confidence = calculate_confidence_score es cps sls pns (Some pg)
                              in Inr \<lparr>emails = es, contact_pages = cps, social_links = sls,
                                      phone_numbers = pns, addresses = ads,
                                      confidence_score = confidence,
                                      extraction_method = ''page_analysis'',
                                      source_urls = [PageContent.url pg]\<rparr>)))))"

text \<open>
  The crawl of a domain. \<open>fetch\<close> is the page fetcher: it raises, or returns a page or
  \<open>None\<close>. The state of the loop is the record \<open>crawl\<close>. The body of the loop is a \<open>try\<close>
  whose handler logs the exception and goes on with the next URL: an exception of the fetch,
  and one of \<open>extract_contacts_from_page\<close>, skip the URL. The list of URLs is built before
  the loop, outside the \<open>try\<close>: an exception of \<open>urljoin\<close> there leaves the function.
\<close>

record crawl =
  all_emails :: "string set"
  all_contact_pages :: "string set"
  all_social_links :: "string \<rightharpoonup> string"
  all_phone_numbers :: "string set"
  all_addresses :: "string set"
  crawl_urls :: "string list"
  total_confidence :: real
  pages_processed :: nat

definition crawl_init :: crawl where
  "crawl_init = \<lparr>all_emails = {}, all_contact_pages = {}, all_social_links = Map.empty,
                  all_phone_numbers = {}, all_addresses = {}, crawl_urls = [],
                  total_confidence = 0, pages_processed = 0\<rparr>"

definition merge_page :: "crawl \<Rightarrow> string \<Rightarrow> ContactInfo \<Rightarrow> crawl" where
  "merge_page st u ci =
     \<lparr>all_emails = all_emails st \<union> emails ci,
      all_contact_pages = all_contact_pages st \<union> contact_pages ci,
      all_social_links = all_social_links st ++ social_links ci,
      all_phone_numbers = all_phone_numbers st \<union> phone_numbers ci,
      all_addresses = all_addresses st \<union> addresses ci,
      crawl_urls = crawl_urls st @ [u],
      total_confidence = total_confidence st + confidence_score ci,
      pages_processed = pages_processed st + 1\<rparr>"

fun crawl_loop ::
  "(string \<Rightarrow> py_error + PageContent option) \<Rightarrow> (string \<Rightarrow> py_error + anchor list) \<Rightarrow>
   (string \<Rightarrow> string \<Rightarrow> py_error + string) \<Rightarrow> crawl \<Rightarrow> string list \<Rightarrow> crawl" where
  "crawl_loop fetch bs urljoin st [] = st"
| "crawl_loop fetch bs urljoin st (u # us) =
     (case fetch u of
        Inl e \<Rightarrow> crawl_loop fetch bs urljoin st us
      | Inr None \<Rightarrow> crawl_loop fetch bs urljoin st us
      | Inr (Some pg) \<Rightarrow>
          if status_code pg = 200
          then (case extract_contacts_from_page bs urljoin (Some pg) of
                  Inl e \<Rightarrow> crawl_loop fetch bs urljoin st us
                | Inr contact_info \<Rightarrow>
                    crawl_loop fetch bs urljoin (merge_page st u contact_info) us)
          else crawl_loop fetch bs urljoin st us)"

definition urls_to_check ::
  "(string \<Rightarrow> string \<Rightarrow> py_error + string) \<Rightarrow> string \<Rightarrow> int \<Rightarrow> py_error + string list" where
  "urls_to_check urljoin dmn max_pages =
     (let base_url = (if \<not> startswith dmn ''http'' then ''https://'' @ dmn else dmn)
      in (case collect (map (urljoin base_url) contact_page_paths) of
            Inl e \<Rightarrow> Inl e
          | Inr contact_urls \<Rightarrow> Inr (py_take max_pages (base_url # contact_urls))))"

definition extract_contacts_from_domain ::
  "(string \<Rightarrow> py_error + PageContent option) \<Rightarrow> (string \<Rightarrow> py_error + anchor list) \<Rightarrow>
   (string \<Rightarrow> string \<Rightarrow> py_error + string) \<Rightarrow> string \<Rightarrow> int \<Rightarrow> py_error + ContactInfo" where
  "extract_contacts_from_domain fetch bs urljoin dmn max_pages =
     (case urls_to_check urljoin dmn max_pages of
        Inl e \<Rightarrow> Inl e
      | Inr us \<Rightarrow>
          (let st = crawl_loop fetch bs urljoin crawl_init us;
              avg_confidence = (if 0 < pages_processed st
                                then total_confidence st / real (pages_processed st) else 0)
          in Inr \<lparr>emails = validate_emails (all_emails st),
                  contact_pages = all_contact_pages st,
                  social_links = all_social_links st,
                  phone_numbers = all_phone_numbers st,
                  addresses = all_addresses st,
                  confidence_score = avg_confidence,
                  extraction_method = ''domain_crawl'',
                  source_urls = crawl_urls st\<rparr>))"

text \<open>
  Vocabulary for the crawl of a domain: the result of a URL that the loop processes (the fetch
  returns a page with status 200 and \<open>extract_contacts_from_page\<close> returns on it), the URLs
  that have one, and these results in fetch order.
\<close>

definition page_result ::
  "(string \<Rightarrow> py_error + PageContent option) \<Rightarrow> (string \<Rightarrow> py_error + anchor list) \<Rightarrow>
   (string \<Rightarrow> string \<Rightarrow> py_error + string) \<Rightarrow> string \<Rightarrow> ContactInfo option" where
  "page_result fetch bs urljoin u =
     (case fetch u of
        Inl e \<Rightarrow> None
      | Inr None \<Rightarrow> None
      | Inr (Some pg) \<Rightarrow>
          if status_code pg = 200
          then (case extract_contacts_from_page bs urljoin (Some pg) of
                  Inl e \<Rightarrow> None
                | Inr contact_info \<Rightarrow> Some contact_info)
          else None)"

definition processed_urls ::
  "(string \<Rightarrow> py_error + PageContent option) \<Rightarrow> (string \<Rightarrow> py_error + anchor list) \<Rightarrow>
   (string \<Rightarrow> string \<Rightarrow> py_error + string) \<Rightarrow> string list \<Rightarrow> string list" where
  "processed_urls fetch bs urljoin us = filter (\<lambda>u. page_result fetch bs urljoin u \<noteq> None) us"

definition page_infos ::
  "(string \<Rightarrow> py_error + PageContent option) \<Rightarrow> (string \<Rightarrow> py_error + anchor list) \<Rightarrow>
   (string \<Rightarrow> string \<Rightarrow> py_error + string) \<Rightarrow> string list \<Rightarrow> ContactInfo list" where
  "page_infos fetch bs urljoin us = List.map_filter (page_result fetch bs urljoin) us"

section \<open>Sample inputs\<close>

definition sample_result :: SearchResult where
  "sample_result =
     \<lparr>SearchResult.title = ''Example Domain'',
      SearchResult.url = ''https://example.org/'',
      SearchResult.snippet = ''This domain is for use in illustrative examples.'',
      SearchResult.rank = 1,
      SearchResult.domain = ''example.org'',
      SearchResult.crawl_timestamp = 0,
      SearchResult.response_time = 1.5,
      result_metadata = [(''keyword'', PStr ''example'')]\<rparr>"

definition sample_parsed :: "string \<Rightarrow> string \<Rightarrow> int \<Rightarrow> ParsedResult" where
  "sample_parsed u t k =
     \<lparr>ParsedResult.title = t, ParsedResult.url = u, ParsedResult.snippet = [],
      ParsedResult.rank = k, ParsedResult.domain = ''example.org'',
      normalized_title = t, normalized_snippet = [], domain_info = [], keywords = [],
      language = ''unknown'', ParsedResult.crawl_timestamp = 0, ParsedResult.response_time = 1,
      source_keyword = [], relevance_score = 0.5, quality_score = 0.5, metadata = []\<rparr>"

definition sample_page :: "int \<Rightarrow> string \<Rightarrow> PageContent" where
  "sample_page st markup =
     \<lparr>PageContent.url = ''https://example.org'', PageContent.title = ''Example'',
      content = ''Example'', html = markup, status_code = st, PageContent.response_time = 1,
      headers = [], fetch_timestamp = 0, error = None\<rparr>"

definition dup_a :: ParsedResult where
  "dup_a = sample_parsed ''https://a.org/1'' ''Home'' 1"

definition dup_b :: ParsedResult where
  "dup_b = sample_parsed ''https://a.org/1'' ''News'' 2"

definition dup_c :: ParsedResult where
  "dup_c = sample_parsed ''https://a.org/2'' ''News'' 3"

definition two_twitter :: "anchor list" where
  "two_twitter =
     [\<lparr>href = Some ''https://twitter.com/first'', anchor_text = ''First''\<rparr>,
      \<lparr>href = Some ''https://twitter.com/second'', anchor_text = ''Second''\<rparr>]"

definition fetch_const :: "PageContent \<Rightarrow> string \<Rightarrow> py_error + PageContent option" where
  \<comment> \<open>a fetcher that returns the same page for every URL\<close>
  "fetch_const pg u = Inr (Some pg)"

definition no_anchors :: "string \<Rightarrow> py_error + anchor list" where
  "no_anchors markup = Inr []"

definition site_urljoin :: "string \<Rightarrow> string \<Rightarrow> py_error + string" where
  \<comment> \<open>\<open>urljoin\<close> for a base on \<open>https://example.org\<close> and an absolute path\<close>
  "site_urljoin base path = Inr (''https://example.org'' @ path)"

definition site_page :: "string \<Rightarrow> PageContent" where
  "site_page u =
     \<lparr>PageContent.url = u, PageContent.title = ''Example'',
      content = ''About us'', html = ''<a href=/about>About us</a>'', status_code = 200,
      PageContent.response_time = 1, headers = [], fetch_timestamp = 0, error = None\<rparr>"

definition fetch_site :: "string \<Rightarrow> py_error + PageContent option" where
  \<comment> \<open>a fetcher that finds the same markup at every URL\<close>
  "fetch_site u = Inr (Some (site_page u))"

definition about_anchor :: "string \<Rightarrow> py_error + anchor list" where
  \<comment> \<open>the anchors of the markup of \<open>site_page\<close>\<close>
  "about_anchor markup = Inr [\<lparr>href = Some ''/about'', anchor_text = ''About us''\<rparr>]"

definition strict_urljoin :: "string \<Rightarrow> string \<Rightarrow> py_error + string" where
  \<comment> \<open>as \<open>site_urljoin\<close>, and \<open>ValueError\<close> for a reference with a bracket\<close>
  "strict_urljoin base path =
     (if CHR ''['' \<in> set path then Inl (ValueError ''Invalid IPv6 URL'')
      else Inr (''https://example.org'' @ path))"

definition bracket_anchor :: "string \<Rightarrow> py_error + anchor list" where
  "bracket_anchor markup = Inr [\<lparr>href = Some ''http://[contact'', anchor_text = ''Contact''\<rparr>]"

definition dup_x :: ParsedResult where
  "dup_x = sample_parsed ''https://a.org/0'' ''News'' 0"

definition huge_rank_result :: SearchResult where
  "huge_rank_result = sample_result\<lparr>SearchResult.rank := 10 ^ 309\<rparr>"

section \<open>Properties of the result parser\<close>

text \<open>
  C1. The claim: for every well-formed search result, \<open>parse_search_result\<close> returns an
  enriched result and not \<open>None\<close>. The code does the opposite. It computes the enriched values
  and then calls the constructor of \<open>ParsedResult\<close> with the keyword \<open>result_metadata\<close>, while
  the class declares the field \<open>metadata\<close>: the call raises \<open>TypeError\<close>, the handler catches
  it, and the function returns \<open>None\<close> for every input.
\<close>

theorem parse_search_result_always_none: "parse_search_result r = None"
  by (simp add: parse_search_result_def ParsedResult_init_def bind_kwargs_def
      parsed_result_fields_def Let_def split: sum.split)

theorem parse_search_result_sample_none: "parse_search_result sample_result = None"
  by (rule parse_search_result_always_none)

lemma quality_bounds: "0 \<le> calculate_quality_score r d \<and> calculate_quality_score r d \<le> 1"
  by (simp add: calculate_quality_score_def Let_def min_def max_def)

lemma confidence_bounds:
  "0 \<le> calculate_confidence_score es cps sls pns pg
   \<and> calculate_confidence_score es cps sls pns pg \<le> 1"
  by (simp add: calculate_confidence_score_def Let_def min_def split: option.split)

lemma relevance_bounds: "calculate_relevance_score r = Inr s \<Longrightarrow> 0 \<le> s \<and> s \<le> 1"
  by (auto simp add: calculate_relevance_score_def Let_def min_def max_def split: sum.splits)

lemma relevance_returns:
  "\<bar>SearchResult.rank r - 1\<bar> < 2 ^ 1024 - 2 ^ 970 \<Longrightarrow> \<exists>s. calculate_relevance_score r = Inr s"
  by (simp add: calculate_relevance_score_def int_to_float_def float_limit_def Let_def)

lemma relevance_raises:
  "2 ^ 1024 - 2 ^ 970 \<le> \<bar>SearchResult.rank r - 1\<bar> \<Longrightarrow> calculate_relevance_score r = Inl OverflowError"
  by (simp add: calculate_relevance_score_def int_to_float_def float_limit_def)

lemma sample_not_spam:
  "\<not> list_ex (\<lambda>ind. str_in ind (lower (SearchResult.domain sample_result)))
              [''spam'', ''ads'', ''click'', ''buy'']"
  by code_simp

lemma sample_relevance: "calculate_relevance_score sample_result = Inr 0.8"
proof -
  have "int_to_float (SearchResult.rank sample_result - 1) = Inr 0"
    by (simp add: int_to_float_def float_limit_def sample_result_def)
  then show ?thesis
    unfolding calculate_relevance_score_def Let_def
    using sample_not_spam by (simp add: sample_result_def)
qed

text \<open>
  C2. The claim: every score lies between 0 and 1, for every input and any integer rank. The
  relevance score multiplies \<open>rank - 1\<close> by a float: for a rank whose distance from 1 is
  \<open>2^1024 - 2^970\<close> or more the conversion raises \<open>OverflowError\<close> and no score is returned.
  As amended: the confidence score, for any sets of signals and any page (or none), and the
  quality score, for any search result and any domain information, lie between 0 and 1; the
  relevance score is returned and lies between 0 and 1 for every rank \<open>k\<close> with
  \<open>|k - 1| < 2^1024 - 2^970\<close>, and the function raises \<open>OverflowError\<close> for every other
  rank.
\<close>

theorem scores_in_unit_interval:
  "0 \<le> calculate_confidence_score es cps sls pns pg
   \<and> calculate_confidence_score es cps sls pns pg \<le> 1
   \<and> 0 \<le> calculate_quality_score r d \<and> calculate_quality_score r d \<le> 1
   \<and> (\<bar>SearchResult.rank r - 1\<bar> < 2 ^ 1024 - 2 ^ 970 \<longrightarrow>
        (\<exists>s. calculate_relevance_score r = Inr s \<and> 0 \<le> s \<and> s \<le> 1))
   \<and> (2 ^ 1024 - 2 ^ 970 \<le> \<bar>SearchResult.rank r - 1\<bar> \<longrightarrow>
        calculate_relevance_score r = Inl OverflowError)"
proof -
  have returns: "\<bar>SearchResult.rank r - 1\<bar> < 2 ^ 1024 - 2 ^ 970 \<longrightarrow>
        (\<exists>s. calculate_relevance_score r = Inr s \<and> 0 \<le> s \<and> s \<le> 1)"
  proof
    assume "\<bar>SearchResult.rank r - 1\<bar> < 2 ^ 1024 - 2 ^ 970"
    then obtain s where s: "calculate_relevance_score r = Inr s"
      using relevance_returns by blast
    then have "0 \<le> s \<and> s \<le> 1"
      by (rule relevance_bounds)
    with s show "\<exists>s. calculate_relevance_score r = Inr s \<and> 0 \<le> s \<and> s \<le> 1"
      by blast
  qed
  have raises: "2 ^ 1024 - 2 ^ 970 \<le> \<bar>SearchResult.rank r - 1\<bar> \<longrightarrow>
        calculate_relevance_score r = Inl OverflowError"
    using relevance_raises by blast
  from returns raises quality_bounds [of r d] confidence_bounds [of es cps sls pns pg]
  show ?thesis by simp
qed

theorem scores_in_unit_interval_witness:
  "0 \<le> calculate_confidence_score {''info@site.org''} {} Map.empty {} (Some (sample_page 200 []))
   \<and> calculate_confidence_score {''info@site.org''} {} Map.empty {} (Some (sample_page 200 [])) \<le> 1
   \<and> 0 \<le> calculate_quality_score sample_result [] \<and> calculate_quality_score sample_result [] \<le> 1
   \<and> \<bar>SearchResult.rank sample_result - 1\<bar> < 2 ^ 1024 - 2 ^ 970
   \<and> calculate_relevance_score sample_result = Inr 0.8"
proof -
  have small: "\<bar>SearchResult.rank sample_result - 1\<bar> < 2 ^ 1024 - 2 ^ 970"
    by (simp add: sample_result_def)
  note inst = scores_in_unit_interval
    [of "{''info@site.org''}" "{}" Map.empty "{}" "Some (sample_page 200 [])" sample_result "[]"]
  from inst small sample_relevance show ?thesis by blast
qed

text \<open>
  The claim as stated fails at the rank \<open>10^309\<close>: the relevance score raises.
\<close>

theorem relevance_score_counterexample:
  "SearchResult.rank huge_rank_result = 10 ^ 309
   \<and> calculate_relevance_score huge_rank_result = Inl OverflowError"
  by (simp add: calculate_relevance_score_def int_to_float_def float_limit_def
      huge_rank_result_def)

text \<open>
  C9. Sorting by \<open>rank\<close> returns a permutation of the input whose ranks are in non-decreasing
  order.
\<close>

theorem sort_results_rank:
  "mset (sort_results rs ''rank'') = mset rs
   \<and> sorted (map ParsedResult.rank (sort_results rs ''rank''))"
  by (simp add: sort_results_def)

theorem sort_results_rank_witness:
  "mset (sort_results [sample_parsed ''u1'' ''A'' 3, sample_parsed ''u2'' ''B'' 1] ''rank'')
     = mset [sample_parsed ''u1'' ''A'' 3, sample_parsed ''u2'' ''B'' 1]
   \<and> sorted (map ParsedResult.rank
        (sort_results [sample_parsed ''u1'' ''A'' 3, sample_parsed ''u2'' ''B'' 1] ''rank''))"
  by (rule sort_results_rank)

text \<open>
  C10. For an absent or empty domain, \<open>analyze_domain\<close> returns the empty mapping, in which
  no key is present; the quality score then takes the tier to be \<open>medium\<close> and adds 0.1 for
  it.
\<close>

theorem analyze_domain_empty:
  "analyze_domain None = [] \<and> analyze_domain (Some []) = []
   \<and> map_of (analyze_domain (Some [])) k = None
   \<and> calculate_quality_score r (analyze_domain (Some []))
       = calculate_quality_score r [(''quality'', PStr ''medium'')]
   \<and> calculate_quality_score r (analyze_domain (Some []))
       = min 1 (max 0 (0.5 + 0.1
           + (if SearchResult.response_time r < 2 then 0.1
              else if 5 < SearchResult.response_time r then - 0.1 else 0)
           + (if 10 < length (SearchResult.title r) then 0.1 else 0)
           + (if 30 < length (SearchResult.snippet r) then 0.1 else 0)))"
  by (auto simp add: analyze_domain_def calculate_quality_score_def dict_get_def Let_def)

theorem analyze_domain_empty_witness:
  "analyze_domain None = [] \<and> analyze_domain (Some []) = []
   \<and> map_of (analyze_domain (Some [])) ''quality'' = None
   \<and> calculate_quality_score sample_result (analyze_domain (Some []))
       = calculate_quality_score sample_result [(''quality'', PStr ''medium'')]
   \<and> calculate_quality_score sample_result (analyze_domain (Some []))
       = min 1 (max 0 (0.5 + 0.1
           + (if SearchResult.response_time sample_result < 2 then 0.1
              else if 5 < SearchResult.response_time sample_result then - 0.1 else 0)
           + (if 10 < length (SearchResult.title sample_result) then 0.1 else 0)
           + (if 30 < length (SearchResult.snippet sample_result) then 0.1 else 0)))"
  by (rule analyze_domain_empty)

lemma dedup_loop_subseq: "subseq (dedup_loop su st rs) rs"
  by (induction rs arbitrary: su st) auto

lemma dedup_loop_snoc:
  "dedup_loop su st (pre @ [r]) =
     dedup_loop su st pre @
       (if ParsedResult.url r \<in> su \<union> ParsedResult.url ` set (dedup_loop su st pre)
           \<or> title_key r \<in> st \<union> title_key ` set (dedup_loop su st pre)
        then [] else [r])"
  by (induction pre arbitrary: su st) auto

lemma dedup_loop_append:
  "dedup_loop su st (p @ q) =
     dedup_loop su st p @
       dedup_loop (su \<union> ParsedResult.url ` set (dedup_loop su st p))
                  (st \<union> title_key ` set (dedup_loop su st p)) q"
  by (induction p arbitrary: su st) auto

lemma dedup_loop_fresh:
  "ParsedResult.url ` set (dedup_loop su st rs) \<inter> su = {}
   \<and> title_key ` set (dedup_loop su st rs) \<inter> st = {}"
proof (induction rs arbitrary: su st)
  case Nil
  then show ?case by simp
next
  case (Cons r rs)
  show ?case
    using Cons.IH [of su st]
      Cons.IH [of "insert (ParsedResult.url r) su" "insert (title_key r) st"]
    by auto
qed

lemma dedup_loop_distinct:
  "distinct (map ParsedResult.url (dedup_loop su st rs))
   \<and> distinct (map title_key (dedup_loop su st rs))"
proof (induction rs arbitrary: su st)
  case Nil
  then show ?case by simp
next
  case (Cons r rs)
  show ?case
    using Cons.IH [of su st]
      Cons.IH [of "insert (ParsedResult.url r) su" "insert (title_key r) st"]
      dedup_loop_fresh [of "insert (ParsedResult.url r) su" "insert (title_key r) st" rs]
    by auto
qed


lemma duplicate_iff:
  "(ParsedResult.url r \<in> ParsedResult.url ` set ks \<or> title_key r \<in> title_key ` set ks)
   = list_ex (\<lambda>k. ParsedResult.url k = ParsedResult.url r \<or> title_key k = title_key r) ks"
  unfolding list_ex_iff image_iff by (metis (no_types, lifting))

lemma title_key_sample: "title_key (sample_parsed u t k) = lower (normalize_text t)"
  by (simp add: title_key_def sample_parsed_def)

lemma key_home: "lower (normalize_text ''Home'') = ''home''"
  by code_simp

lemma key_news: "lower (normalize_text ''News'') = ''news''"
  by code_simp

lemma url_sample: "ParsedResult.url (sample_parsed u t k) = u"
  by (simp add: sample_parsed_def)

lemma dedup_abc: "deduplicate_results [dup_a, dup_b, dup_c] = [dup_a, dup_c]"
  by (simp add: deduplicate_results_def dup_a_def dup_b_def dup_c_def title_key_sample
      key_home key_news url_sample)

lemma dedup_xba: "deduplicate_results [dup_x, dup_b, dup_a] = [dup_x, dup_a]"
  by (simp add: deduplicate_results_def dup_a_def dup_b_def dup_x_def title_key_sample
      key_home key_news url_sample)

lemma dedup_snoc:
  "deduplicate_results (pre @ [r]) =
     deduplicate_results pre @
       (if list_ex (\<lambda>k. ParsedResult.url k = ParsedResult.url r \<or> title_key k = title_key r)
                   (deduplicate_results pre)
        then [] else [r])"
proof -
  have "deduplicate_results (pre @ [r]) =
       deduplicate_results pre @
         (if ParsedResult.url r \<in> ParsedResult.url ` set (deduplicate_results pre)
             \<or> title_key r \<in> title_key ` set (deduplicate_results pre)
          then [] else [r])"
    unfolding deduplicate_results_def by (simp add: dedup_loop_snoc)
  then show ?thesis
    by (simp only: duplicate_iff)
qed

lemma dedup_later_removed:
  assumes "a \<in> set (deduplicate_results (xs @ a # ys))"
    and "ParsedResult.url a = ParsedResult.url b"
  shows "deduplicate_results (xs @ a # ys @ [b]) = deduplicate_results (xs @ a # ys)"
proof -
  have "list_ex (\<lambda>k. ParsedResult.url k = ParsedResult.url b \<or> title_key k = title_key b)
          (deduplicate_results (xs @ a # ys))"
    unfolding list_ex_iff using assms by blast
  then show ?thesis
    using dedup_snoc [of "xs @ a # ys" b] by simp
qed

text \<open>
  C7. The claim: \<open>deduplicate_results\<close> removes exactly the items whose URL, or whose
  normalized lowercased title, equals that of an earlier item, and of two entries with the
  same URL only the first survives. The code compares an item with the earlier items it has
  retained only: an item that was removed leaves neither its URL nor its title behind. As
  amended: the retained items are a subsequence of the input; no two of them share a URL or
  a normalized lowercased title; the items retained from a prefix of the input are a prefix of
  the items retained from the input; an item is removed exactly when its URL or its normalized
  lowercased title equals that of an earlier retained item; of two entries with the same URL
  the later one is removed whenever the earlier one is retained; and in a list of exactly two
  entries with the same URL only the first survives.
\<close>

theorem deduplicate_results_retained:
  "subseq (deduplicate_results rs) rs
   \<and> prefix (deduplicate_results p) (deduplicate_results (p @ q))
   \<and> distinct (map ParsedResult.url (deduplicate_results rs))
   \<and> distinct (map title_key (deduplicate_results rs))
   \<and> deduplicate_results (pre @ [r]) =
       deduplicate_results pre @
         (if list_ex (\<lambda>k. ParsedResult.url k = ParsedResult.url r \<or> title_key k = title_key r)
                     (deduplicate_results pre)
          then [] else [r])
   \<and> (a \<in> set (deduplicate_results (xs @ a # ys)) \<and> ParsedResult.url a = ParsedResult.url b
        \<longrightarrow> deduplicate_results (xs @ a # ys @ [b]) = deduplicate_results (xs @ a # ys))
   \<and> (ParsedResult.url a = ParsedResult.url b \<longrightarrow> deduplicate_results [a, b] = [a])"
proof -
  have two: "ParsedResult.url a = ParsedResult.url b \<longrightarrow> deduplicate_results [a, b] = [a]"
    by (simp add: deduplicate_results_def)
  have sub: "subseq (deduplicate_results rs) rs"
    by (simp add: deduplicate_results_def dedup_loop_subseq)
  have dist: "distinct (map ParsedResult.url (deduplicate_results rs))
              \<and> distinct (map title_key (deduplicate_results rs))"
    unfolding deduplicate_results_def by (rule dedup_loop_distinct)
  have pre: "prefix (deduplicate_results p) (deduplicate_results (p @ q))"
    unfolding deduplicate_results_def by (subst dedup_loop_append) simp
  from sub pre dist two dedup_snoc [of pre r] dedup_later_removed [of a xs ys b]
  show ?thesis by blast
qed

theorem deduplicate_results_retained_witness:
  "subseq (deduplicate_results [dup_a, dup_b, dup_c]) [dup_a, dup_b, dup_c]
   \<and> prefix (deduplicate_results [dup_a, dup_b]) (deduplicate_results ([dup_a, dup_b] @ [dup_c]))
   \<and> distinct (map ParsedResult.url (deduplicate_results [dup_a, dup_b, dup_c]))
   \<and> distinct (map title_key (deduplicate_results [dup_a, dup_b, dup_c]))
   \<and> deduplicate_results ([dup_a, dup_b] @ [dup_c]) = [dup_a] @ [dup_c]
   \<and> dup_a \<in> set (deduplicate_results ([] @ dup_a # []))
   \<and> ParsedResult.url dup_a = ParsedResult.url dup_b
   \<and> deduplicate_results ([] @ dup_a # [] @ [dup_b]) = deduplicate_results ([] @ dup_a # [])
   \<and> deduplicate_results [dup_a, dup_b] = [dup_a]"
proof -
  have same: "ParsedResult.url dup_a = ParsedResult.url dup_b"
    by (simp add: dup_a_def dup_b_def url_sample)
  have kept: "dup_a \<in> set (deduplicate_results ([] @ dup_a # []))"
    by (simp add: deduplicate_results_def)
  have fresh: "\<not> list_ex (\<lambda>k. ParsedResult.url k = ParsedResult.url dup_c
                               \<or> title_key k = title_key dup_c) [dup_a]"
    by (simp add: dup_a_def dup_c_def title_key_sample key_home key_news url_sample)
  note inst = deduplicate_results_retained
    [of "[dup_a, dup_b, dup_c]" "[dup_a, dup_b]" "[dup_c]" "[dup_a, dup_b]" dup_c dup_a "[]" "[]" dup_b]
  from inst same have ab: "deduplicate_results [dup_a, dup_b] = [dup_a]"
    by blast
  from inst have "deduplicate_results ([dup_a, dup_b] @ [dup_c]) =
       deduplicate_results [dup_a, dup_b] @
         (if list_ex (\<lambda>k. ParsedResult.url k = ParsedResult.url dup_c
                          \<or> title_key k = title_key dup_c) (deduplicate_results [dup_a, dup_b])
          then [] else [dup_c])"
    by blast
  with ab fresh have abc: "deduplicate_results ([dup_a, dup_b] @ [dup_c]) = [dup_a] @ [dup_c]"
    by simp
  from inst same kept
  have later: "deduplicate_results ([] @ dup_a # [] @ [dup_b]) = deduplicate_results ([] @ dup_a # [])"
    by blast
  from inst have "subseq (deduplicate_results [dup_a, dup_b, dup_c]) [dup_a, dup_b, dup_c]
      \<and> prefix (deduplicate_results [dup_a, dup_b]) (deduplicate_results ([dup_a, dup_b] @ [dup_c]))
      \<and> distinct (map ParsedResult.url (deduplicate_results [dup_a, dup_b, dup_c]))
      \<and> distinct (map title_key (deduplicate_results [dup_a, dup_b, dup_c]))"
    by blast
  with same kept ab abc later show ?thesis by blast
qed

text \<open>
  The claim as stated fails on three items: the first two share a URL, the last two share a
  title. The third item has the title of an earlier item, and is retained.
\<close>

theorem deduplicate_results_counterexample:
  "title_key dup_c = title_key dup_b
   \<and> ParsedResult.url dup_b = ParsedResult.url dup_a
   \<and> deduplicate_results [dup_a, dup_b, dup_c] = [dup_a, dup_c]"
proof -
  have "title_key dup_c = title_key dup_b"
    by (simp add: dup_b_def dup_c_def title_key_sample)
  moreover have "ParsedResult.url dup_b = ParsedResult.url dup_a"
    by (simp add: dup_a_def dup_b_def url_sample)
  ultimately show ?thesis
    using dedup_abc by blast
qed

text \<open>
  Of two entries with the same URL the later one survives when the earlier one was removed
  for its title: here the second item has the title of the first and the URL of the third.
\<close>

theorem deduplicate_results_later_survives:
  "ParsedResult.url dup_b = ParsedResult.url dup_a
   \<and> title_key dup_b = title_key dup_x
   \<and> deduplicate_results [dup_x, dup_b, dup_a] = [dup_x, dup_a]"
proof -
  have "title_key dup_b = title_key dup_x"
    by (simp add: dup_b_def dup_x_def title_key_sample)
  moreover have "ParsedResult.url dup_b = ParsedResult.url dup_a"
    by (simp add: dup_a_def dup_b_def url_sample)
  ultimately show ?thesis
    using dedup_xba by blast
qed

section \<open>Properties of the contact extractor\<close>

text \<open>
  C5. For an absent page, and for a page with no markup, \<open>extract_contacts_from_page\<close>
  returns the empty result: no emails, contact pages, social links, phone numbers, addresses
  or source URLs, confidence 0 and the method \<open>empty_page\<close>. The function is total.
\<close>

theorem extract_contacts_from_page_empty:
  "extract_contacts_from_page bs urljoin None = Inr empty_page
   \<and> (html pg = [] \<longrightarrow> extract_contacts_from_page bs urljoin (Some pg) = Inr empty_page)
   \<and> emails empty_page = {} \<and> contact_pages empty_page = {}
   \<and> social_links empty_page = Map.empty
   \<and> phone_numbers empty_page = {} \<and> addresses empty_page = {} \<and> source_urls empty_page = []
   \<and> confidence_score empty_page = 0 \<and> extraction_method empty_page = ''empty_page''"
  by (simp add: extract_contacts_from_page_def empty_page_def)

theorem extract_contacts_from_page_empty_witness:
  "html (sample_page 200 []) = []
   \<and> extract_contacts_from_page no_anchors site_urljoin (Some (sample_page 200 [])) = Inr empty_page
   \<and> extract_contacts_from_page no_anchors site_urljoin None = Inr empty_page
   \<and> emails empty_page = {} \<and> confidence_score empty_page = 0
   \<and> extraction_method empty_page = ''empty_page''"
  using extract_contacts_from_page_empty [of no_anchors site_urljoin "sample_page 200 []"]
  by (simp add: sample_page_def)

lemma social_loop_last:
  "social_loop m hs p =
     (case filter (\<lambda>h. platform_of h = Some p) hs of [] \<Rightarrow> m p | h # t \<Rightarrow> Some (last (h # t)))"
proof (induction hs arbitrary: m)
  case Nil
  then show ?case by simp
next
  case (Cons h hs)
  let ?fs = "filter (\<lambda>h. platform_of h = Some p) hs"
  show ?case
  proof (cases "platform_of h")
    case None
    then show ?thesis using Cons.IH [of m] by simp
  next
    case (Some q)
    have "social_loop m (h # hs) p = social_loop (m(q \<mapsto> h)) hs p"
      using Some by simp
    also have "\<dots> = (case ?fs of [] \<Rightarrow> (m(q \<mapsto> h)) p | h # t \<Rightarrow> Some (last (h # t)))"
      by (rule Cons.IH)
    also have "\<dots> = (case filter (\<lambda>h. platform_of h = Some p) (h # hs) of
                        [] \<Rightarrow> m p | h # t \<Rightarrow> Some (last (h # t)))"
      using Some by (cases "q = p"; cases ?fs) simp_all
    finally show ?thesis .
  qed
qed

lemma twitter_first: "platform_of ''https://twitter.com/first'' = Some ''twitter''"
  by code_simp

lemma twitter_second: "platform_of ''https://twitter.com/second'' = Some ''twitter''"
  by code_simp

text \<open>
  C3. The claim: when several anchors match the pattern of one platform,
  \<open>extract_social_links\<close> keeps the URL of the first. The code assigns
  \<open>social_links[platform] = href\<close> for every matching anchor, so a later anchor overwrites an
  earlier one. As amended: for every markup and platform, the URL kept is that of the last
  anchor, in document order, whose \<open>href\<close> matches the platform (and no URL is kept when no
  anchor matches).
\<close>

theorem extract_social_links_last:
  "extract_social_links soup p =
     (case filter (\<lambda>h. platform_of h = Some p) (hrefs_of soup) of
        [] \<Rightarrow> None | h # t \<Rightarrow> Some (last (h # t)))"
  by (simp add: extract_social_links_def social_loop_last)

theorem extract_social_links_last_witness:
  "filter (\<lambda>h. platform_of h = Some ''twitter'') (hrefs_of two_twitter)
     = [''https://twitter.com/first'', ''https://twitter.com/second'']
   \<and> extract_social_links two_twitter ''twitter'' = Some ''https://twitter.com/second''"
  using extract_social_links_last [of two_twitter "''twitter''"]
  by (simp add: hrefs_of_def two_twitter_def twitter_first twitter_second)

text \<open>
  The claim as stated fails on two anchors that both match the pattern of \<open>twitter\<close>: the URL
  kept is the second one, not the first.
\<close>

theorem extract_social_links_counterexample:
  "hrefs_of two_twitter = [''https://twitter.com/first'', ''https://twitter.com/second'']
   \<and> platform_of ''https://twitter.com/first'' = Some ''twitter''
   \<and> platform_of ''https://twitter.com/second'' = Some ''twitter''
   \<and> extract_social_links two_twitter ''twitter'' \<noteq> Some ''https://twitter.com/first''
   \<and> extract_social_links two_twitter ''twitter'' = Some ''https://twitter.com/second''"
  by (simp add: extract_social_links_def hrefs_of_def two_twitter_def twitter_first twitter_second)

lemma crawl_loop_step:
  "crawl_loop fetch bs uj st (u # us) =
     (case page_result fetch bs uj u of
        None \<Rightarrow> crawl_loop fetch bs uj st us
      | Some ci \<Rightarrow> crawl_loop fetch bs uj (merge_page st u ci) us)"
  by (simp add: page_result_def split: sum.splits option.splits)

lemma page_infos_step:
  "page_infos fetch bs uj (u # us) =
     (case page_result fetch bs uj u of
        None \<Rightarrow> page_infos fetch bs uj us
      | Some ci \<Rightarrow> ci # page_infos fetch bs uj us)"
  by (simp add: page_infos_def split: option.splits)

lemma processed_urls_step:
  "processed_urls fetch bs uj (u # us) =
     (case page_result fetch bs uj u of
        None \<Rightarrow> processed_urls fetch bs uj us
      | Some ci \<Rightarrow> u # processed_urls fetch bs uj us)"
  by (simp add: processed_urls_def split: option.splits)

lemma crawl_loop_fields:
  "all_emails (crawl_loop fetch bs uj st us)
     = all_emails st \<union> \<Union> (emails ` set (page_infos fetch bs uj us))
   \<and> all_contact_pages (crawl_loop fetch bs uj st us)
     = all_contact_pages st \<union> \<Union> (contact_pages ` set (page_infos fetch bs uj us))
   \<and> all_phone_numbers (crawl_loop fetch bs uj st us)
     = all_phone_numbers st \<union> \<Union> (phone_numbers ` set (page_infos fetch bs uj us))
   \<and> all_addresses (crawl_loop fetch bs uj st us)
     = all_addresses st \<union> \<Union> (addresses ` set (page_infos fetch bs uj us))
   \<and> all_social_links (crawl_loop fetch bs uj st us)
     = foldl (++) (all_social_links st) (map social_links (page_infos fetch bs uj us))
   \<and> crawl_urls (crawl_loop fetch bs uj st us) = crawl_urls st @ processed_urls fetch bs uj us
   \<and> total_confidence (crawl_loop fetch bs uj st us)
     = total_confidence st + sum_list (map confidence_score (page_infos fetch bs uj us))
   \<and> pages_processed (crawl_loop fetch bs uj st us)
     = pages_processed st + length (page_infos fetch bs uj us)"
proof (induction us arbitrary: st)
  case Nil
  then show ?case by (simp add: page_infos_def processed_urls_def)
next
  case (Cons u us)
  show ?case
  proof (cases "page_result fetch bs uj u")
    case None
    then show ?thesis
      using Cons.IH [of st]
      by (simp add: crawl_loop_step page_infos_step processed_urls_step del: crawl_loop.simps)
  next
    case (Some ci)
    then show ?thesis
      using Cons.IH [of "merge_page st u ci"]
      by (simp add: crawl_loop_step page_infos_step processed_urls_step merge_page_def
          Un_assoc del: crawl_loop.simps)
  qed
qed

lemma page_emails_valid:
  "extract_contacts_from_page bs uj pg = Inr ci \<Longrightarrow> e \<in> emails ci \<Longrightarrow> is_valid_email e"
  by (auto simp add: extract_contacts_from_page_def empty_page_def extract_emails_def Let_def
      split: option.splits if_splits sum.splits)

lemma page_result_iff:
  "(page_result fetch bs uj u = Some ci) =
     (\<exists>pg. fetch u = Inr (Some pg) \<and> status_code pg = 200
           \<and> extract_contacts_from_page bs uj (Some pg) = Inr ci)"
  by (auto simp add: page_result_def split: sum.splits option.splits)

lemma page_infos_results:
  "ci \<in> set (page_infos fetch bs uj us) \<Longrightarrow> \<exists>u. page_result fetch bs uj u = Some ci"
proof (induction us)
  case Nil
  then show ?case by (simp add: page_infos_def)
next
  case (Cons v vs)
  then show ?case
    by (cases "page_result fetch bs uj v") (auto simp add: page_infos_step)
qed

lemma validate_page_emails:
  "validate_emails (\<Union> (emails ` set (page_infos fetch bs uj us)))
     = \<Union> (emails ` set (page_infos fetch bs uj us))"
proof -
  have "is_valid_email e" if "ci \<in> set (page_infos fetch bs uj us)" and "e \<in> emails ci" for ci e
  proof -
    from that(1) obtain u where "page_result fetch bs uj u = Some ci"
      using page_infos_results by blast
    then obtain pg where pg: "extract_contacts_from_page bs uj (Some pg) = Inr ci"
      unfolding page_result_iff by blast
    from pg that(2) show ?thesis
      by (rule page_emails_valid)
  qed
  then show ?thesis
    unfolding validate_emails_def by blast
qed

lemma processed_results:
  "map (page_result fetch bs uj) (processed_urls fetch bs uj us)
     = map Some (page_infos fetch bs uj us)"
  by (induction us) (auto simp add: page_infos_step processed_urls_step
      processed_urls_def page_infos_def split: option.splits)

lemma domain_result:
  "urls_to_check uj dmn max_pages = Inr us \<Longrightarrow>
   extract_contacts_from_domain fetch bs uj dmn max_pages =
     Inr \<lparr>emails = \<Union> (emails ` set (page_infos fetch bs uj us)),
          contact_pages = \<Union> (contact_pages ` set (page_infos fetch bs uj us)),
          social_links = foldl (++) Map.empty (map social_links (page_infos fetch bs uj us)),
          phone_numbers = \<Union> (phone_numbers ` set (page_infos fetch bs uj us)),
          addresses = \<Union> (addresses ` set (page_infos fetch bs uj us)),
          confidence_score =
            (if page_infos fetch bs uj us = [] then 0
             else sum_list (map confidence_score (page_infos fetch bs uj us))
                  / real (length (page_infos fetch bs uj us))),
          extraction_method = ''domain_crawl'',
          source_urls = processed_urls fetch bs uj us\<rparr>"
proof -
  assume us: "urls_to_check uj dmn max_pages = Inr us"
  have init: "all_emails crawl_init = {}" "all_contact_pages crawl_init = {}"
    "all_phone_numbers crawl_init = {}" "all_addresses crawl_init = {}"
    "all_social_links crawl_init = Map.empty" "crawl_urls crawl_init = []"
    "total_confidence crawl_init = 0" "pages_processed crawl_init = 0"
    by (simp_all add: crawl_init_def)
  note fields = crawl_loop_fields [of fetch bs uj crawl_init us, unfolded init]
  show ?thesis
    unfolding extract_contacts_from_domain_def us Let_def
    using fields by (simp add: validate_page_emails)
qed

lemma domain_raises:
  "urls_to_check uj dmn max_pages = Inl e \<Longrightarrow>
   extract_contacts_from_domain fetch bs uj dmn max_pages = Inl e"
  by (simp add: extract_contacts_from_domain_def)

lemma site_emails:
  "extract_emails ''About us'' [\<lparr>href = Some ''/about'', anchor_text = ''About us''\<rparr>] = {}"
  by code_simp

lemma site_phones: "extract_phone_numbers ''About us'' = {}"
  by code_simp

lemma site_addresses: "extract_addresses ''About us'' = {}"
  by code_simp

lemma site_social: "platform_of ''/about'' = None"
  by code_simp

lemma site_contact_hrefs:
  "contact_hrefs [\<lparr>href = Some ''/about'', anchor_text = ''About us''\<rparr>] = [''/about'']"
  by code_simp

lemma site_urls:
  "urls_to_check site_urljoin ''example.org'' 2
     = Inr [''https://example.org'', ''https://example.org/contact'']"
  by code_simp

lemma home_keywords:
  "\<not> (str_in ''contact'' (lower ''https://example.org'')
      \<or> str_in ''about'' (lower ''https://example.org'')
      \<or> str_in ''team'' (lower ''https://example.org''))"
  by code_simp

lemma contact_keywords_url: "str_in ''contact'' (lower ''https://example.org/contact'')"
  by code_simp

lemma site_page_fields:
  "PageContent.url (site_page u) = u" "content (site_page u) = ''About us''"
  "html (site_page u) = ''<a href=/about>About us</a>''" "status_code (site_page u) = 200"
  by (simp_all add: site_page_def)

lemma site_confidence_home:
  "calculate_confidence_score {} {''https://example.org/about''} Map.empty {}
     (Some (site_page ''https://example.org'')) = 0.1"
  using home_keywords by (simp add: calculate_confidence_score_def site_page_fields)

lemma site_confidence_contact:
  "calculate_confidence_score {} {''https://example.org/about''} Map.empty {}
     (Some (site_page ''https://example.org/contact'')) = 0.2"
  using contact_keywords_url by (simp add: calculate_confidence_score_def site_page_fields)

lemma site_contact_pages:
  "extract_contact_pages site_urljoin [\<lparr>href = Some ''/about'', anchor_text = ''About us''\<rparr>] u
     = Inr {''https://example.org/about''}"
  by (simp add: extract_contact_pages_def site_contact_hrefs site_urljoin_def)

lemma site_social_links:
  "extract_social_links [\<lparr>href = Some ''/about'', anchor_text = ''About us''\<rparr>] = Map.empty"
  by (simp add: extract_social_links_def hrefs_of_def site_social)

lemma site_home:
  "page_result fetch_site about_anchor site_urljoin ''https://example.org'' =
     Some \<lparr>emails = {}, contact_pages = {''https://example.org/about''},
           social_links = Map.empty, phone_numbers = {}, addresses = {},
           confidence_score = 0.1, extraction_method = ''page_analysis'',
           source_urls = [''https://example.org'']\<rparr>"
  by (simp add: page_result_def fetch_site_def extract_contacts_from_page_def site_page_fields
      about_anchor_def site_emails site_phones site_addresses site_contact_pages
      site_social_links site_confidence_home)

lemma site_contact:
  "page_result fetch_site about_anchor site_urljoin ''https://example.org/contact'' =
     Some \<lparr>emails = {}, contact_pages = {''https://example.org/about''},
           social_links = Map.empty, phone_numbers = {}, addresses = {},
           confidence_score = 0.2, extraction_method = ''page_analysis'',
           source_urls = [''https://example.org/contact'']\<rparr>"
  by (simp add: page_result_def fetch_site_def extract_contacts_from_page_def site_page_fields
      about_anchor_def site_emails site_phones site_addresses site_contact_pages
      site_social_links site_confidence_contact)

text \<open>
  C4. The claim: every candidate URL whose fetch returns a status from 200 to 299 is
  processed. The code processes a page only when \<open>status_code == 200\<close>, and its \<open>try\<close> skips
  a URL on which the fetch or \<open>extract_contacts_from_page\<close> raises. As amended: when the list
  of candidate URLs can be built, the URLs whose fetch returns a page with status exactly 200
  on which \<open>extract_contacts_from_page\<close> returns are the source URLs, in fetch order; the
  emails, contact pages, phone numbers and addresses of the result are the unions over the
  results of these pages, the social links are merged in fetch order, and the confidence is
  the arithmetic mean of their confidence scores, or 0 when no page was processed. When
  \<open>urljoin\<close> raises while the list of candidate URLs is built, the function raises.
\<close>

theorem extract_contacts_from_domain_status_200:
  "(urls_to_check uj dmn max_pages = Inl e \<longrightarrow>
      extract_contacts_from_domain fetch bs uj dmn max_pages = Inl e)
   \<and> (urls_to_check uj dmn max_pages = Inr us \<longrightarrow>
       extract_contacts_from_domain fetch bs uj dmn max_pages =
         Inr \<lparr>emails = \<Union> (emails ` set (page_infos fetch bs uj us)),
              contact_pages = \<Union> (contact_pages ` set (page_infos fetch bs uj us)),
              social_links = foldl (++) Map.empty (map social_links (page_infos fetch bs uj us)),
              phone_numbers = \<Union> (phone_numbers ` set (page_infos fetch bs uj us)),
              addresses = \<Union> (addresses ` set (page_infos fetch bs uj us)),
              confidence_score =
                (if page_infos fetch bs uj us = [] then 0
                 else sum_list (map confidence_score (page_infos fetch bs uj us))
                      / real (length (page_infos fetch bs uj us))),
              extraction_method = ''domain_crawl'',
              source_urls = processed_urls fetch bs uj us\<rparr>)
   \<and> processed_urls fetch bs uj us = filter (\<lambda>u. page_result fetch bs uj u \<noteq> None) us
   \<and> map (page_result fetch bs uj) (processed_urls fetch bs uj us)
       = map Some (page_infos fetch bs uj us)
   \<and> (page_result fetch bs uj u = Some ci) =
       (\<exists>pg. fetch u = Inr (Some pg) \<and> status_code pg = 200
             \<and> extract_contacts_from_page bs uj (Some pg) = Inr ci)"
  using domain_result [of uj dmn max_pages us fetch bs]
    domain_raises [of uj dmn max_pages e fetch bs]
    processed_results [of fetch bs uj us] page_result_iff [of fetch bs uj u ci]
  by (simp add: processed_urls_def)

theorem extract_contacts_from_domain_status_200_witness:
  "urls_to_check site_urljoin ''example.org'' 2
     = Inr [''https://example.org'', ''https://example.org/contact'']
   \<and> processed_urls fetch_site about_anchor site_urljoin
         [''https://example.org'', ''https://example.org/contact'']
       = [''https://example.org'', ''https://example.org/contact'']
   \<and> map confidence_score (page_infos fetch_site about_anchor site_urljoin
         [''https://example.org'', ''https://example.org/contact'']) = [0.1, 0.2]
   \<and> extract_contacts_from_domain fetch_site about_anchor site_urljoin ''example.org'' 2 =
         Inr \<lparr>emails = {}, contact_pages = {''https://example.org/about''},
              social_links = Map.empty, phone_numbers = {}, addresses = {},
              confidence_score = 0.15, extraction_method = ''domain_crawl'',
              source_urls = [''https://example.org'', ''https://example.org/contact'']\<rparr>"
proof -
  let ?us = "[''https://example.org'', ''https://example.org/contact'']"
  have urls: "processed_urls fetch_site about_anchor site_urljoin ?us = ?us"
    by (simp add: processed_urls_def site_home site_contact)
  have infos: "page_infos fetch_site about_anchor site_urljoin ?us =
      [\<lparr>emails = {}, contact_pages = {''https://example.org/about''},
        social_links = Map.empty, phone_numbers = {}, addresses = {},
        confidence_score = 0.1, extraction_method = ''page_analysis'',
        source_urls = [''https://example.org'']\<rparr>,
       \<lparr>emails = {}, contact_pages = {''https://example.org/about''},
        social_links = Map.empty, phone_numbers = {}, addresses = {},
        confidence_score = 0.2, extraction_method = ''page_analysis'',
        source_urls = [''https://example.org/contact'']\<rparr>]"
    by (simp add: page_infos_def site_home site_contact)
  from extract_contacts_from_domain_status_200
         [of site_urljoin "''example.org''" 2 _ fetch_site about_anchor ?us] site_urls
  have "extract_contacts_from_domain fetch_site about_anchor site_urljoin ''example.org'' 2 =
         Inr \<lparr>emails = \<Union> (emails ` set (page_infos fetch_site about_anchor site_urljoin ?us)),
              contact_pages = \<Union> (contact_pages ` set (page_infos fetch_site about_anchor site_urljoin ?us)),
              social_links = foldl (++) Map.empty
                (map social_links (page_infos fetch_site about_anchor site_urljoin ?us)),
              phone_numbers = \<Union> (phone_numbers ` set (page_infos fetch_site about_anchor site_urljoin ?us)),
              addresses = \<Union> (addresses ` set (page_infos fetch_site about_anchor site_urljoin ?us)),
              confidence_score =
                (if page_infos fetch_site about_anchor site_urljoin ?us = [] then 0
                 else sum_list (map confidence_score (page_infos fetch_site about_anchor site_urljoin ?us))
                      / real (length (page_infos fetch_site about_anchor site_urljoin ?us))),
              extraction_method = ''domain_crawl'',
              source_urls = processed_urls fetch_site about_anchor site_urljoin ?us\<rparr>"
    by blast
  then have "extract_contacts_from_domain fetch_site about_anchor site_urljoin ''example.org'' 2 =
         Inr \<lparr>emails = {}, contact_pages = {''https://example.org/about''},
              social_links = Map.empty, phone_numbers = {}, addresses = {},
              confidence_score = 0.15, extraction_method = ''domain_crawl'',
              source_urls = ?us\<rparr>"
    unfolding urls infos by simp
  with site_urls urls infos show ?thesis by simp
qed

text \<open>
  The claim as stated fails when the fetch returns a page with status 204: the status is in
  the 200 class, and the page is not processed.
\<close>

theorem extract_contacts_from_domain_counterexample:
  "urls_to_check site_urljoin ''example.org'' 1 = Inr [''https://example.org'']
   \<and> fetch_const (sample_page 204 ''<a href=x>contact</a>'') ''https://example.org''
       = Inr (Some (sample_page 204 ''<a href=x>contact</a>''))
   \<and> 200 \<le> status_code (sample_page 204 ''<a href=x>contact</a>'')
   \<and> status_code (sample_page 204 ''<a href=x>contact</a>'') < 300
   \<and> extract_contacts_from_domain (fetch_const (sample_page 204 ''<a href=x>contact</a>''))
         no_anchors site_urljoin ''example.org'' 1 =
         Inr \<lparr>emails = {}, contact_pages = {}, social_links = Map.empty, phone_numbers = {},
              addresses = {}, confidence_score = 0, extraction_method = ''domain_crawl'',
              source_urls = []\<rparr>"
proof -
  have us: "urls_to_check site_urljoin ''example.org'' 1 = Inr [''https://example.org'']"
    by code_simp
  show ?thesis
    unfolding extract_contacts_from_domain_def us
    by (simp add: fetch_const_def sample_page_def crawl_init_def validate_emails_def)
qed

lemma bracket_hrefs:
  "contact_hrefs [\<lparr>href = Some ''http://[contact'', anchor_text = ''Contact''\<rparr>]
     = [''http://[contact'']"
  by code_simp

lemma strict_urls:
  "urls_to_check strict_urljoin ''example.org'' 1 = Inr [''https://example.org'']"
  by code_simp

text \<open>
  A page with status 200 on which \<open>extract_contacts_from_page\<close> raises is skipped: here
  \<open>urljoin\<close> raises on the \<open>href\<close> of the one anchor of the page.
\<close>

theorem extract_contacts_from_domain_skips_raising_page:
  "fetch_site ''https://example.org'' = Inr (Some (site_page ''https://example.org''))
   \<and> status_code (site_page ''https://example.org'') = 200
   \<and> extract_contacts_from_page bracket_anchor strict_urljoin
         (Some (site_page ''https://example.org'')) = Inl (ValueError ''Invalid IPv6 URL'')
   \<and> extract_contacts_from_domain fetch_site bracket_anchor strict_urljoin ''example.org'' 1 =
         Inr \<lparr>emails = {}, contact_pages = {}, social_links = Map.empty, phone_numbers = {},
              addresses = {}, confidence_score = 0, extraction_method = ''domain_crawl'',
              source_urls = []\<rparr>"
proof -
  have raises: "extract_contacts_from_page bracket_anchor strict_urljoin
      (Some (site_page ''https://example.org'')) = Inl (ValueError ''Invalid IPv6 URL'')"
    by (simp add: extract_contacts_from_page_def site_page_fields bracket_anchor_def
        extract_contact_pages_def bracket_hrefs strict_urljoin_def)
  have "extract_contacts_from_domain fetch_site bracket_anchor strict_urljoin ''example.org'' 1 =
         Inr \<lparr>emails = {}, contact_pages = {}, social_links = Map.empty, phone_numbers = {},
              addresses = {}, confidence_score = 0, extraction_method = ''domain_crawl'',
              source_urls = []\<rparr>"
    unfolding extract_contacts_from_domain_def strict_urls
    by (simp add: fetch_site_def site_page_fields raises crawl_init_def validate_emails_def)
  with raises show ?thesis
    by (simp add: fetch_site_def site_page_fields)
qed

lemma sub_from_class:
  "sub_from (Cls Q) [] 0 prev s = filter (\<lambda>c. \<not> Q c) s"
  by (induction s arbitrary: prev) (simp_all add: chr_ok_def)

lemma clean_phone_filter: "clean_phone p = filter (\<lambda>c. is_digit c \<or> c = CHR ''+'') p"
  by (simp add: clean_phone_def re_sub_def sub_from_class)

lemma phone_us: "findall False phone_pattern_us ''Call 555-123-4567 or 123'' = ['' 555-123-4567'']"
  by code_simp

lemma phone_intl: "findall False phone_pattern_intl ''Call 555-123-4567 or 123'' = [''555-123-4567'']"
  by code_simp

lemma phone_matches_call:
  "phone_matches ''Call 555-123-4567 or 123'' = {'' 555-123-4567'', ''555-123-4567''}"
  by (simp add: phone_matches_def phone_patterns_def phone_us phone_intl)

lemma clean_spaced: "length (clean_phone '' 555-123-4567'') = 10"
  by code_simp

lemma clean_plain: "length (clean_phone ''555-123-4567'') = 10"
  by code_simp

lemma strip_spaced: "strip '' 555-123-4567'' = ''555-123-4567''"
  by code_simp

lemma strip_plain: "strip ''555-123-4567'' = ''555-123-4567''"
  by code_simp

lemma extract_phone_call: "extract_phone_numbers ''Call 555-123-4567 or 123'' = {''555-123-4567''}"
proof -
  have "{p \<in> {'' 555-123-4567'', ''555-123-4567''}. 10 \<le> length (clean_phone p)}
          = {'' 555-123-4567'', ''555-123-4567''}"
    using clean_spaced clean_plain by auto
  then have "extract_phone_numbers ''Call 555-123-4567 or 123''
          = strip ` {'' 555-123-4567'', ''555-123-4567''}"
    unfolding extract_phone_numbers_def phone_matches_call by (rule arg_cong)
  also have "\<dots> = {''555-123-4567''}"
    by (simp only: image_insert image_empty strip_spaced strip_plain insert_absorb2)
  finally show ?thesis .
qed

text \<open>
  C8. The claim: a matched candidate is accepted only if at least 10 characters remain after
  every character other than a digit or \<open>+\<close> is removed, and the original matched string is
  stored. The code stores \<open>phone.strip()\<close>: the matched string without the whitespace around
  it, which the first pattern can match in front of the number. As amended: the result is the
  set of the whitespace-trimmed matches whose digits and \<open>+\<close> signs number at least 10; on
  the text \<open>Call 555-123-4567 or 123\<close> it is the one string \<open>555-123-4567\<close>, with nothing
  for \<open>123\<close>.
\<close>

theorem extract_phone_numbers_trimmed:
  "extract_phone_numbers t
     = strip ` {p \<in> phone_matches t. 10 \<le> length (filter (\<lambda>c. is_digit c \<or> c = CHR ''+'') p)}
   \<and> extract_phone_numbers ''Call 555-123-4567 or 123'' = {''555-123-4567''}"
  by (simp add: extract_phone_call) (simp add: extract_phone_numbers_def clean_phone_filter)

theorem extract_phone_numbers_trimmed_witness:
  "extract_phone_numbers ''Call 555-123-4567 or 123''
     = strip ` {p \<in> phone_matches ''Call 555-123-4567 or 123''.
                10 \<le> length (filter (\<lambda>c. is_digit c \<or> c = CHR ''+'') p)}
   \<and> extract_phone_numbers ''Call 555-123-4567 or 123'' = {''555-123-4567''}"
  by (rule extract_phone_numbers_trimmed)

text \<open>
  The claim as stated fails on its own text: the first pattern matches the number with the
  space in front of it, the match is accepted, and the string stored is not that match.
\<close>

theorem extract_phone_numbers_counterexample:
  "'' 555-123-4567'' \<in> phone_matches ''Call 555-123-4567 or 123''
   \<and> 10 \<le> length (clean_phone '' 555-123-4567'')
   \<and> '' 555-123-4567'' \<notin> extract_phone_numbers ''Call 555-123-4567 or 123''"
  by (simp add: phone_matches_call clean_spaced extract_phone_call)

lemma email_plain:
  "findall True email_pattern_plain ''Contact: info@example.org and noreply@example.org''
     = [''info@example.org'', ''noreply@example.org'']"
  by code_simp

lemma email_at_dot:
  "findall True email_pattern_at_dot ''Contact: info@example.org and noreply@example.org'' = []"
  by code_simp

lemma email_spaced:
  "findall True email_pattern_spaced ''Contact: info@example.org and noreply@example.org''
     = [''info@example.org'', ''noreply@example.org'']"
  by code_simp

lemma email_matches_contact:
  "set (concat (map (\<lambda>p. findall True p ''Contact: info@example.org and noreply@example.org'')
                    email_patterns))
     = {''info@example.org'', ''noreply@example.org''}"
  by (auto simp add: email_patterns_def email_plain email_at_dot email_spaced)

lemma info_valid: "is_valid_email ''info@example.org''"
  by code_simp

lemma noreply_spam: "list_ex (\<lambda>ind. str_in ind (lower ''noreply@example.org'')) spam_indicators"
  by code_simp

lemma noreply_invalid: "\<not> is_valid_email ''noreply@example.org''"
  using noreply_spam by (simp add: is_valid_email_def)

lemma info_clean: "lower (strip ''info@example.org'') = ''info@example.org''"
  by code_simp

lemma noreply_clean: "lower (strip ''noreply@example.org'') = ''noreply@example.org''"
  by code_simp

lemma no_mailto_emails: "mailto_links soup = [] \<Longrightarrow> mailto_emails soup = {}"
  by (simp add: mailto_emails_def)

lemma about_not_mailto:
  "mailto_links [\<lparr>href = Some ''/about'', anchor_text = ''About us''\<rparr>] = []"
  by code_simp

text \<open>
  C6. On the text \<open>Contact: info@example.org and noreply@example.org\<close>, with markup that has
  no \<open>mailto:\<close> anchor, \<open>extract_emails\<close> returns exactly the set of \<open>info@example.org\<close>: the
  candidate \<open>noreply@example.org\<close> contains a spam indicator and is rejected, and the other
  candidate is valid.
\<close>

theorem extract_emails_contact:
  "mailto_links soup = [] \<Longrightarrow>
     extract_emails ''Contact: info@example.org and noreply@example.org'' soup
       = {''info@example.org''}
     \<and> list_ex (\<lambda>ind. str_in ind (lower ''noreply@example.org'')) spam_indicators
     \<and> \<not> is_valid_email ''noreply@example.org''
     \<and> is_valid_email ''info@example.org''"
proof -
  assume "mailto_links soup = []"
  then have none: "mailto_emails soup = {}"
    by (rule no_mailto_emails)
  have img: "(\<lambda>e. lower (strip e)) ` {''info@example.org'', ''noreply@example.org''}
               = {''info@example.org'', ''noreply@example.org''}"
    by (simp only: image_insert image_empty info_clean noreply_clean)
  have keep: "{e \<in> {''info@example.org'', ''noreply@example.org''}. is_valid_email e}
               = {''info@example.org''}"
    using info_valid noreply_invalid by auto
  have "extract_emails ''Contact: info@example.org and noreply@example.org'' soup
          = {''info@example.org''}"
    unfolding extract_emails_def Let_def email_matches_contact none Un_empty_right img
    by (rule keep)
  then show ?thesis
    using noreply_spam noreply_invalid info_valid by blast
qed

theorem extract_emails_contact_witness:
  "mailto_links [\<lparr>href = Some ''/about'', anchor_text = ''About us''\<rparr>] = []
   \<and> extract_emails ''Contact: info@example.org and noreply@example.org''
        [\<lparr>href = Some ''/about'', anchor_text = ''About us''\<rparr>] = {''info@example.org''}"
  using extract_emails_contact [OF about_not_mailto] about_not_mailto by simp

end
